theory Spec2Isabelle
  imports Main
begin

section \<open>The U-Net of CT\_Inpainting/src/models/model.py\<close>

subsection \<open>Tensors, layers and the errors of the tensor operators\<close>

text \<open>
  The network is wiring: every number is computed by the tensor library. A tensor is
  modelled by what the wiring determines, its shape and the operator expression that
  produced it (its trace); the numbers themselves are not modelled.
\<close>

datatype layer =
    Conv2d nat nat nat nat            \<comment> \<open>in\_channels, out\_channels, kernel\_size, padding\<close>
  | ReLU
  | BatchNorm2d nat                   \<comment> \<open>num\_features\<close>
  | MaxPool2d nat                     \<comment> \<open>kernel\_size (the stride defaults to it)\<close>
  | ConvTranspose2d nat nat nat nat   \<comment> \<open>in\_channels, out\_channels, kernel\_size, stride\<close>

datatype expr =
    Input
  | App layer expr
  | Cat "expr list"

record tensor =
  shape :: "nat list"
  val :: expr

datatype torch_error =
    BadRank nat                 \<comment> \<open>the operator does not take an input of this many dimensions\<close>
  | ChannelMismatch nat nat     \<comment> \<open>channels the layer expects, channels it got\<close>
  | KernelTooLarge              \<comment> \<open>kernel size greater than the padded input size\<close>
  | EmptyWeight                 \<comment> \<open>a convolution whose weight has no elements\<close>
  | OutputTooSmall              \<comment> \<open>pooling a window that does not fit, or an empty image\<close>
  | OneValuePerChannel          \<comment> \<open>batch normalisation in training mode over a single value\<close>
  | CatEmpty
  | CatRank nat nat
  | CatDim nat
  | CatSizeMismatch nat nat     \<comment> \<open>sizes must match except in the cat dimension: expected, got\<close>

type_synonym failure = "nat \<times> torch_error"  \<comment> \<open>the line of \<open>forward\<close> that raised, and the error\<close>

definition bind :: "'e + 'a \<Rightarrow> ('a \<Rightarrow> 'e + 'b) \<Rightarrow> 'e + 'b" where
  "bind r f = (case r of Inl e \<Rightarrow> Inl e | Inr x \<Rightarrow> f x)"

definition line :: "nat \<Rightarrow> torch_error + 'a \<Rightarrow> failure + 'a" where
  "line n r = (case r of Inl e \<Rightarrow> Inl (n, e) | Inr x \<Rightarrow> Inr x)"

text \<open>
  The shape rules of the operators, for the stride-1 convolution, the pooling with
  stride = kernel size and no padding, and the transposed convolution without padding
  that the network uses. The convolutions and the pooling take a batched (4-D) or an
  unbatched (3-D) input; batch normalisation takes a 4-D input only. A convolution
  without output channels is refused before its input is looked at; one without input
  channels is refused when it has an output to fill (its result has no elements).
\<close>

definition conv_out :: "nat \<Rightarrow> nat \<Rightarrow> nat \<Rightarrow> nat" where
  "conv_out k p n = n + 2 * p + 1 - k"

definition conv2d_shape :: "nat \<Rightarrow> nat \<Rightarrow> nat \<Rightarrow> nat \<Rightarrow> nat list \<Rightarrow> torch_error + nat list" where
  "conv2d_shape cin cout k p s =
     (case s of
        [c, h, w] \<Rightarrow>
          (if cout = 0 then Inl EmptyWeight
           else if c \<noteq> cin then Inl (ChannelMismatch cin c)
           else if h + 2 * p < k \<or> w + 2 * p < k then Inl KernelTooLarge
           else if cin = 0 \<and> conv_out k p h * conv_out k p w \<noteq> 0 then Inl EmptyWeight
           else Inr [cout, conv_out k p h, conv_out k p w])
      | [b, c, h, w] \<Rightarrow>
          (if cout = 0 then Inl EmptyWeight
           else if c \<noteq> cin then Inl (ChannelMismatch cin c)
           else if h + 2 * p < k \<or> w + 2 * p < k then Inl KernelTooLarge
           else if cin = 0 \<and> b * conv_out k p h * conv_out k p w \<noteq> 0 then Inl EmptyWeight
           else Inr [b, cout, conv_out k p h, conv_out k p w])
      | _ \<Rightarrow> Inl (BadRank (length s)))"

definition batchnorm2d_shape :: "bool \<Rightarrow> nat \<Rightarrow> nat list \<Rightarrow> torch_error + nat list" where
  "batchnorm2d_shape training n s =
     (case s of
        [b, c, h, w] \<Rightarrow>
          (if training \<and> b * h * w = 1 then Inl OneValuePerChannel
           else if c \<noteq> n then Inl (ChannelMismatch n c)
           else Inr [b, c, h, w])
      | _ \<Rightarrow> Inl (BadRank (length s)))"

definition pool_out :: "nat \<Rightarrow> nat \<Rightarrow> nat" where
  "pool_out k n = (n - k) div k + 1"

definition maxpool2d_shape :: "nat \<Rightarrow> nat list \<Rightarrow> torch_error + nat list" where
  "maxpool2d_shape k s =
     (case s of
        [c, h, w] \<Rightarrow>
          (if c = 0 \<or> h < k \<or> w < k \<or> k = 0 then Inl OutputTooSmall
           else Inr [c, pool_out k h, pool_out k w])
      | [b, c, h, w] \<Rightarrow>
          (if c = 0 \<or> h < k \<or> w < k \<or> k = 0 then Inl OutputTooSmall
           else Inr [b, c, pool_out k h, pool_out k w])
      | _ \<Rightarrow> Inl (BadRank (length s)))"

definition convT_out :: "nat \<Rightarrow> nat \<Rightarrow> nat \<Rightarrow> nat" where
  "convT_out k st n = n * st + k - st"   \<comment> \<open>\<open>(n - 1) * stride + kernel_size\<close>\<close>

definition convtranspose2d_shape ::
  "nat \<Rightarrow> nat \<Rightarrow> nat \<Rightarrow> nat \<Rightarrow> nat list \<Rightarrow> torch_error + nat list" where
  "convtranspose2d_shape cin cout k st s =
     (case s of
        [c, h, w] \<Rightarrow>
          (if cin = 0 then Inl EmptyWeight
           else if c \<noteq> cin then Inl (ChannelMismatch cin c)
           else if h * st + k < st \<or> w * st + k < st then Inl OutputTooSmall
           else Inr [cout, convT_out k st h, convT_out k st w])
      | [b, c, h, w] \<Rightarrow>
          (if cin = 0 then Inl EmptyWeight
           else if c \<noteq> cin then Inl (ChannelMismatch cin c)
           else if h * st + k < st \<or> w * st + k < st then Inl OutputTooSmall
           else Inr [b, cout, convT_out k st h, convT_out k st w])
      | _ \<Rightarrow> Inl (BadRank (length s)))"

fun layer_shape :: "bool \<Rightarrow> layer \<Rightarrow> nat list \<Rightarrow> torch_error + nat list" where
  "layer_shape training (Conv2d cin cout k p) s = conv2d_shape cin cout k p s"
| "layer_shape training ReLU s = Inr s"
| "layer_shape training (BatchNorm2d n) s = batchnorm2d_shape training n s"
| "layer_shape training (MaxPool2d k) s = maxpool2d_shape k s"
| "layer_shape training (ConvTranspose2d cin cout k st) s = convtranspose2d_shape cin cout k st s"

text \<open>Calling a layer: the shape rule, and the layer recorded in the trace.\<close>

definition call :: "bool \<Rightarrow> layer \<Rightarrow> tensor \<Rightarrow> torch_error + tensor" where
  "call training l x =
     (case layer_shape training l (shape x) of
        Inl e \<Rightarrow> Inl e
      | Inr s \<Rightarrow> Inr \<lparr>shape = s, val = App l (val x)\<rparr>)"

text \<open>\<open>nn.Sequential\<close>: the layers in order, stopping at the first that raises.\<close>

fun sequential :: "bool \<Rightarrow> layer list \<Rightarrow> tensor \<Rightarrow> torch_error + tensor" where
  "sequential training [] x = Inr x"
| "sequential training (l # ls) x =
     (case call training l x of Inl e \<Rightarrow> Inl e | Inr y \<Rightarrow> sequential training ls y)"

text \<open>
  \<open>torch.cat(tensors, dim)\<close>: all tensors have the rank of the first, and its sizes
  except in dimension \<open>dim\<close>, where the sizes add up; the first size that differs is
  reported. The trace keeps the operands in the order given.
\<close>

fun first_mismatch :: "nat \<Rightarrow> nat \<Rightarrow> nat list \<Rightarrow> nat list \<Rightarrow> (nat \<times> nat) option" where
  "first_mismatch i d (x # xs) (y # ys) =
     (if i \<noteq> d \<and> x \<noteq> y then Some (x, y) else first_mismatch (Suc i) d xs ys)"
| "first_mismatch i d xs ys = None"

fun cat_shape :: "nat \<Rightarrow> nat list \<Rightarrow> nat list list \<Rightarrow> torch_error + nat list" where
  "cat_shape d acc [] = Inr acc"
| "cat_shape d acc (s # ss) =
     (if length s \<noteq> length acc then Inl (CatRank (length acc) (length s))
      else if length acc \<le> d then Inl (CatDim d)
      else (case first_mismatch 0 d acc s of
              Some (e, g) \<Rightarrow> Inl (CatSizeMismatch e g)
            | None \<Rightarrow> cat_shape d (acc[d := acc ! d + s ! d]) ss))"

definition cat :: "tensor list \<Rightarrow> nat \<Rightarrow> torch_error + tensor" where
  "cat ts d =
     (case ts of
        [] \<Rightarrow> Inl CatEmpty
      | t # ts' \<Rightarrow>
          (case cat_shape d (shape t) (map shape ts') of
             Inl e \<Rightarrow> Inl e
           | Inr s \<Rightarrow> Inr \<lparr>shape = s, val = Cat (map val ts)\<rparr>))"

subsection \<open>The network\<close>

record UNet =
  enc_conv0 :: "layer list"
  pool0 :: layer
  enc_conv1 :: "layer list"
  pool1 :: layer
  enc_conv2 :: "layer list"
  pool2 :: layer
  enc_conv3 :: "layer list"
  pool3 :: layer
  enc_conv4 :: "layer list"
  upconv3 :: layer
  dec_conv3 :: "layer list"
  upconv2 :: layer
  dec_conv2 :: "layer list"
  upconv1 :: layer
  dec_conv1 :: "layer list"
  upconv0 :: layer
  dec_conv0 :: "layer list"
  final_conv :: layer
  training :: bool

definition conv_block :: "nat \<Rightarrow> nat \<Rightarrow> layer list" where
  "conv_block in_channels out_channels =
     [Conv2d in_channels out_channels 3 1,
      ReLU,
      BatchNorm2d out_channels,
      Conv2d out_channels out_channels 3 1,
      ReLU,
      BatchNorm2d out_channels]"

text \<open>\<open>UNet.__init__\<close>; a module is constructed in training mode.\<close>

definition UNet_init :: "nat \<Rightarrow> nat \<Rightarrow> UNet" where
  "UNet_init in_channels out_channels =
     \<lparr>enc_conv0 = conv_block in_channels 64,
      pool0 = MaxPool2d 2,
      enc_conv1 = conv_block 64 128,
      pool1 = MaxPool2d 2,
      enc_conv2 = conv_block 128 256,
      pool2 = MaxPool2d 2,
      enc_conv3 = conv_block 256 512,
      pool3 = MaxPool2d 2,
      enc_conv4 = conv_block 512 1024,
      upconv3 = ConvTranspose2d 1024 512 2 2,
      dec_conv3 = conv_block 1024 512,
      upconv2 = ConvTranspose2d 512 256 2 2,
      dec_conv2 = conv_block 512 256,
      upconv1 = ConvTranspose2d 256 128 2 2,
      dec_conv1 = conv_block 256 128,
      upconv0 = ConvTranspose2d 128 64 2 2,
      dec_conv0 = conv_block 128 64,
      final_conv = Conv2d 64 out_channels 1 0,
      training = True\<rparr>"

text \<open>\<open>Module.eval()\<close> and \<open>Module.train()\<close> of the framework.\<close>

definition eval :: "UNet \<Rightarrow> UNet" where
  "eval m = m\<lparr>training := False\<rparr>"

definition train :: "UNet \<Rightarrow> UNet" where
  "train m = m\<lparr>training := True\<rparr>"

text \<open>\<open>UNet.forward\<close>, statement by statement; the numbers are the source lines.\<close>

definition forward :: "UNet \<Rightarrow> tensor \<Rightarrow> failure + tensor" where
  "forward m x =
     bind (line 51 (sequential (training m) (enc_conv0 m) x)) (\<lambda>enc0.
     bind (line 52 (call (training m) (pool0 m) enc0)) (\<lambda>enc0_pool.
     bind (line 54 (sequential (training m) (enc_conv1 m) enc0_pool)) (\<lambda>enc1.
     bind (line 55 (call (training m) (pool1 m) enc1)) (\<lambda>enc1_pool.
     bind (line 57 (sequential (training m) (enc_conv2 m) enc1_pool)) (\<lambda>enc2.
     bind (line 58 (call (training m) (pool2 m) enc2)) (\<lambda>enc2_pool.
     bind (line 60 (sequential (training m) (enc_conv3 m) enc2_pool)) (\<lambda>enc3.
     bind (line 61 (call (training m) (pool3 m) enc3)) (\<lambda>enc3_pool.
     bind (line 63 (sequential (training m) (enc_conv4 m) enc3_pool)) (\<lambda>bottleneck.
     bind (line 66 (call (training m) (upconv3 m) bottleneck)) (\<lambda>dec3.
     bind (line 67 (cat [dec3, enc3] 1)) (\<lambda>dec3.
     bind (line 68 (sequential (training m) (dec_conv3 m) dec3)) (\<lambda>dec3.
     bind (line 70 (call (training m) (upconv2 m) dec3)) (\<lambda>dec2.
     bind (line 71 (cat [dec2, enc2] 1)) (\<lambda>dec2.
     bind (line 72 (sequential (training m) (dec_conv2 m) dec2)) (\<lambda>dec2.
     bind (line 74 (call (training m) (upconv1 m) dec2)) (\<lambda>dec1.
     bind (line 75 (cat [dec1, enc1] 1)) (\<lambda>dec1.
     bind (line 76 (sequential (training m) (dec_conv1 m) dec1)) (\<lambda>dec1.
     bind (line 78 (call (training m) (upconv0 m) dec1)) (\<lambda>dec0.
     bind (line 79 (cat [dec0, enc0] 1)) (\<lambda>dec0.
     bind (line 80 (sequential (training m) (dec_conv0 m) dec0)) (\<lambda>dec0.
     line 82 (call (training m) (final_conv m) dec0))))))))))))))))))))))"

subsection \<open>What the claims speak about\<close>

text \<open>The trace of an \<open>nn.Sequential\<close>: its layers applied in order.\<close>

definition trace_seq :: "layer list \<Rightarrow> expr \<Rightarrow> expr" where
  "trace_seq ls e = foldl (\<lambda>e l. App l e) e ls"

text \<open>The operand lists of the concatenations of a trace, the outermost first.\<close>

fun cat_nodes :: "expr \<Rightarrow> expr list list" where
  "cat_nodes Input = []"
| "cat_nodes (App l e) = cat_nodes e"
| "cat_nodes (Cat es) = es # concat (map cat_nodes es)"

text \<open>An upsampled tensor is the output of a transposed convolution.\<close>

fun is_upsampled :: "expr \<Rightarrow> bool" where
  "is_upsampled (App (ConvTranspose2d cin cout k st) e) = True"
| "is_upsampled e = False"

text \<open>
  A skip tensor of depth \<open>d\<close> is computed from the input by the encoder alone (no
  transposed convolution, no concatenation) and has been pooled \<open>d\<close> times.
\<close>

fun skip_depth :: "expr \<Rightarrow> nat option" where
  "skip_depth Input = Some 0"
| "skip_depth (App (MaxPool2d k) e) = map_option Suc (skip_depth e)"
| "skip_depth (App (ConvTranspose2d cin cout k st) e) = None"
| "skip_depth (App l e) = skip_depth e"
| "skip_depth (Cat es) = None"

text \<open>The input channel width that a layer declares.\<close>

fun in_width :: "layer \<Rightarrow> nat option" where
  "in_width (Conv2d cin cout k p) = Some cin"
| "in_width (ConvTranspose2d cin cout k st) = Some cin"
| "in_width (BatchNorm2d n) = Some n"
| "in_width l = None"

text \<open>
  The shape of the tensor that a trace denotes, for an input of shape \<open>s\<close>: the shape
  rules of the operators, applied along the trace (a concatenation is along dimension 1,
  as everywhere in \<open>forward\<close>); and its number of channels, when it is a 4-D tensor.
\<close>

fun all_ok :: "('e + 'a) list \<Rightarrow> 'e + 'a list" where
  "all_ok [] = Inr []"
| "all_ok (r # rs) =
     (case r of
        Inl e \<Rightarrow> Inl e
      | Inr x \<Rightarrow> (case all_ok rs of Inl e \<Rightarrow> Inl e | Inr xs \<Rightarrow> Inr (x # xs)))"

fun shape_of :: "bool \<Rightarrow> nat list \<Rightarrow> expr \<Rightarrow> torch_error + nat list" where
  "shape_of tr s Input = Inr s"
| "shape_of tr s (App l e) =
     (case shape_of tr s e of Inl er \<Rightarrow> Inl er | Inr s' \<Rightarrow> layer_shape tr l s')"
| "shape_of tr s (Cat es) =
     (case all_ok (map (shape_of tr s) es) of
        Inl er \<Rightarrow> Inl er
      | Inr [] \<Rightarrow> Inl CatEmpty
      | Inr (s0 # ss) \<Rightarrow> cat_shape 1 s0 ss)"

definition channels_of :: "bool \<Rightarrow> nat list \<Rightarrow> expr \<Rightarrow> nat option" where
  "channels_of tr s e =
     (case shape_of tr s e of Inr [b, c, h, w] \<Rightarrow> Some c | _ \<Rightarrow> None)"

text \<open>
  For every concatenation of a trace, the outermost first: the input channel width
  declared by the layer that is applied to it.
\<close>

fun cat_user_widths :: "expr \<Rightarrow> nat option list" where
  "cat_user_widths Input = []"
| "cat_user_widths (App l (Cat es)) = in_width l # concat (map cat_user_widths es)"
| "cat_user_widths (App l e) = cat_user_widths e"
| "cat_user_widths (Cat es) = None # concat (map cat_user_widths es)"

text \<open>
  The fusions of a trace, for an input of shape \<open>s\<close>: for every concatenation, which
  operands are upsampled tensors, which are skip tensors and of which depth, the number
  of channels of each operand, and the input width declared by the layer that takes the
  concatenation.
\<close>

definition fusions ::
  "bool \<Rightarrow> nat list \<Rightarrow> expr \<Rightarrow> (bool list \<times> nat option list \<times> nat option list \<times> nat option) list" where
  "fusions tr s e =
     map2 (\<lambda>ops user. (map is_upsampled ops, map skip_depth ops,
                         map (channels_of tr s) ops, user))
       (cat_nodes e) (cat_user_widths e)"

text \<open>
  The source line of the concatenation of decoder depth \<open>d\<close> (lines 67, 71, 75, 79 for
  the depths 3, 2, 1, 0), and the deepest depth at which the encoder's halving of an
  \<open>h \<times> w\<close> image dropped a row or a column.
\<close>

definition cat_line :: "nat \<Rightarrow> nat" where
  "cat_line d = 79 - 4 * d"

definition failing_depth :: "nat \<Rightarrow> nat \<Rightarrow> nat" where
  "failing_depth h w =
     (if odd (h div 8) \<or> odd (w div 8) then 3
      else if odd (h div 4) \<or> odd (w div 4) then 2
      else if odd (h div 2) \<or> odd (w div 2) then 1
      else 0)"

text \<open>
  The source lines of the encoder's conv block and of its pooling at depth \<open>d\<close> (lines
  51 and 52, 54 and 55, 57 and 58, 60 and 61), and the depth of the first pooling that
  is given fewer than two rows or columns, for an image with fewer than 16.
\<close>

definition block_line :: "nat \<Rightarrow> nat" where
  "block_line d = 51 + 3 * d"

definition pool_line :: "nat \<Rightarrow> nat" where
  "pool_line d = 52 + 3 * d"

definition starving_depth :: "nat \<Rightarrow> nat \<Rightarrow> nat" where
  "starving_depth h w =
     (if min h w < 2 then 0 else if min h w < 4 then 1 else if min h w < 8 then 2 else 3)"

subsection \<open>The building blocks on a 4-D input\<close>

lemmas shape_defs = conv2d_shape_def batchnorm2d_shape_def maxpool2d_shape_def
  convtranspose2d_shape_def conv_out_def pool_out_def convT_out_def

lemma bind_Inr: "bind (Inr x) f = f x"
  by (simp add: bind_def)

lemma bind_Inl: "bind (Inl e) f = Inl e"
  by (simp add: bind_def)

lemma line_Inr: "line n (Inr x) = Inr x"
  by (simp add: line_def)

lemma line_Inl: "line n (Inl e) = Inl (n, e)"
  by (simp add: line_def)

lemma bind_InrE:
  assumes "bind r f = Inr y"
  obtains x where "r = Inr x" "f x = Inr y"
  using assms by (cases r) (auto simp: bind_def)

lemma line_InrD: "line n r = Inr x \<Longrightarrow> r = Inr x"
  by (cases r) (auto simp: line_def)

lemma conv_block_ok:
  assumes "0 < h" "0 < w" "\<not> tr \<or> b * h * w \<noteq> 1" "0 < cin" "0 < cout"
  shows "sequential tr (conv_block cin cout) \<lparr>shape = [b, cin, h, w], val = e\<rparr> =
     Inr \<lparr>shape = [b, cout, h, w], val = trace_seq (conv_block cin cout) e\<rparr>"
  using assms by (auto simp: conv_block_def call_def shape_defs trace_seq_def)

lemma conv_block_ok2:
  assumes "2 \<le> h" "2 \<le> w" "0 < cin" "0 < cout"
  shows "sequential tr (conv_block cin cout) \<lparr>shape = [b, cin, h, w], val = e\<rparr> =
     Inr \<lparr>shape = [b, cout, h, w], val = trace_seq (conv_block cin cout) e\<rparr>"
proof -
  have "b * h * w \<noteq> 1" using assms by (cases b) auto
  with assms show ?thesis by (intro conv_block_ok) auto
qed

lemma pool_ok:
  assumes "2 \<le> h" "2 \<le> w" "0 < c"
  shows "call tr (MaxPool2d 2) \<lparr>shape = [b, c, h, w], val = e\<rparr> =
     Inr \<lparr>shape = [b, c, h div 2, w div 2], val = App (MaxPool2d 2) e\<rparr>"
  using assms by (auto simp: call_def shape_defs)

lemma up_ok:
  assumes "0 < cin"
  shows "call tr (ConvTranspose2d cin cout 2 2) \<lparr>shape = [b, cin, h, w], val = e\<rparr> =
     Inr \<lparr>shape = [b, cout, 2 * h, 2 * w], val = App (ConvTranspose2d cin cout 2 2) e\<rparr>"
  using assms by (auto simp: call_def shape_defs)

lemma final_ok:
  assumes "0 < h" "0 < w" "0 < cin" "0 < cout"
  shows "call tr (Conv2d cin cout (Suc 0) 0) \<lparr>shape = [b, cin, h, w], val = e\<rparr> =
     Inr \<lparr>shape = [b, cout, h, w], val = App (Conv2d cin cout (Suc 0) 0) e\<rparr>"
  using assms by (auto simp: call_def shape_defs)

lemma final_zero:
  "call tr (Conv2d cin 0 k p) \<lparr>shape = [b, c, h, w], val = e\<rparr> = Inl EmptyWeight"
  by (auto simp: call_def shape_defs)

lemma cat_pair:
  "cat [\<lparr>shape = [b, c, h, w], val = e\<rparr>, \<lparr>shape = [b', c', h', w'], val = e'\<rparr>] (Suc 0) =
    (if b \<noteq> b' then Inl (CatSizeMismatch b b')
     else if h \<noteq> h' then Inl (CatSizeMismatch h h')
     else if w \<noteq> w' then Inl (CatSizeMismatch w w')
     else Inr \<lparr>shape = [b, c + c', h, w], val = Cat [e, e']\<rparr>)"
  by (auto simp: cat_def)

text \<open>The same blocks read backwards: what a call that returned says about its input.\<close>

lemma conv_block_inv:
  assumes "sequential tr (conv_block ci co) x = Inr y"
  shows "\<exists>b h w. shape x = [b, ci, h, w] \<and> shape y = [b, co, h, w] \<and> 0 < h \<and> 0 < w \<and>
           (tr \<longrightarrow> b * h * w \<noteq> 1)"
  using assms
  by (auto simp: conv_block_def call_def shape_defs split: sum.splits list.splits if_splits)

lemma pool_inv:
  assumes "call tr (MaxPool2d 2) x = Inr y" "shape x = [b, c, h, w]"
  shows "shape y = [b, c, h div 2, w div 2] \<and> 2 \<le> h \<and> 2 \<le> w"
  using assms
  by (auto simp: call_def shape_defs split: sum.splits list.splits if_splits)

lemma up_inv:
  assumes "call tr (ConvTranspose2d ci co 2 2) x = Inr y" "shape x = [b, c, h, w]"
  shows "shape y = [b, co, 2 * h, 2 * w]"
  using assms
  by (auto simp: call_def shape_defs split: sum.splits list.splits if_splits)

lemma cat_inv:
  assumes "cat [x, y] (Suc 0) = Inr z" "shape x = [b, c, h, w]" "shape y = [b', c', h', w']"
  shows "shape z = [b, c + c', h, w] \<and> b = b' \<and> h = h' \<and> w = w'"
  using assms
  by (auto simp: cat_def split: sum.splits list.splits if_splits option.splits)

lemma final_inv:
  assumes "call tr (Conv2d ci co (Suc 0) 0) x = Inr y" "shape x = [b, c, h, w]"
  shows "shape y = [b, co, h, w]"
  using assms
  by (auto simp: call_def shape_defs split: sum.splits list.splits if_splits)

lemma call_val: "call tr l x = Inr y \<Longrightarrow> val y = App l (val x)"
  by (auto simp: call_def split: sum.splits)

lemma sequential_val: "sequential tr ls x = Inr y \<Longrightarrow> val y = trace_seq ls (val x)"
proof (induction ls arbitrary: x)
  case Nil
  then show ?case by (simp add: trace_seq_def)
next
  case (Cons l ls)
  then show ?case by (auto simp: trace_seq_def call_val split: sum.splits)
qed

lemma cat_val: "cat ts d = Inr y \<Longrightarrow> val y = Cat (map val ts)"
  by (auto simp: cat_def split: list.splits sum.splits)

subsection \<open>The forward pass on a 4-D input\<close>

text \<open>
  When no pooling step runs out of rows or columns, the forward pass either fails at the
  first concatenation whose operands differ in size, or reaches the final convolution,
  which returns a tensor of the input's spatial size, unless it has no output channels.
\<close>

lemma forward_chain:
  fixes h0 w0 h1 w1 h2 w2 h3 w3 h4 w4 b :: nat
  assumes dims: "2 \<le> h0" "2 \<le> w0" "2 \<le> h1" "2 \<le> w1" "2 \<le> h2" "2 \<le> w2"
      "2 \<le> h3" "2 \<le> w3" "0 < h4" "0 < w4"
    and halves: "h0 div 2 = h1" "w0 div 2 = w1" "h1 div 2 = h2" "w1 div 2 = w2"
      "h2 div 2 = h3" "w2 div 2 = w3" "h3 div 2 = h4" "w3 div 2 = w4"
    and bn: "\<not> tr \<or> b * h4 * w4 \<noteq> 1"
    and ch: "0 < ic"
  shows "map_sum id shape
           (forward ((UNet_init ic oc)\<lparr>training := tr\<rparr>) \<lparr>shape = [b, ic, h0, w0], val = v\<rparr>) =
     (if 2 * h4 \<noteq> h3 then Inl (67, CatSizeMismatch (2 * h4) h3)
      else if 2 * w4 \<noteq> w3 then Inl (67, CatSizeMismatch (2 * w4) w3)
      else if 2 * h3 \<noteq> h2 then Inl (71, CatSizeMismatch (2 * h3) h2)
      else if 2 * w3 \<noteq> w2 then Inl (71, CatSizeMismatch (2 * w3) w2)
      else if 2 * h2 \<noteq> h1 then Inl (75, CatSizeMismatch (2 * h2) h1)
      else if 2 * w2 \<noteq> w1 then Inl (75, CatSizeMismatch (2 * w2) w1)
      else if 2 * h1 \<noteq> h0 then Inl (79, CatSizeMismatch (2 * h1) h0)
      else if 2 * w1 \<noteq> w0 then Inl (79, CatSizeMismatch (2 * w1) w0)
      else if oc = 0 then Inl (82, EmptyWeight)
      else Inr [b, oc, h0, w0])"
proof -
  have pos: "0 < h0" "0 < w0" using dims by auto
  show ?thesis
    using dims pos bn ch
    by (cases "oc = 0")
      (simp_all add: forward_def UNet_init_def conv_block_ok conv_block_ok2 pool_ok up_ok cat_pair
        final_ok final_zero bind_Inr bind_Inl line_Inr line_Inl halves)
qed

text \<open>
  Conversely, a forward pass that returns ran every statement of \<open>forward\<close>, on tensors
  of these shapes.
\<close>

lemma forward_run:
  assumes ok: "forward ((UNet_init ic oc)\<lparr>training := tr\<rparr>) x = Inr t"
  obtains b h w enc0 enc0_pool enc1 enc1_pool enc2 enc2_pool enc3 enc3_pool bottleneck
      up3 cat3 dec3 up2 cat2 dec2 up1 cat1 dec1 up0 cat0 dec0
    where "sequential tr (conv_block ic 64) x = Inr enc0"
      "call tr (MaxPool2d 2) enc0 = Inr enc0_pool"
      "sequential tr (conv_block 64 128) enc0_pool = Inr enc1"
      "call tr (MaxPool2d 2) enc1 = Inr enc1_pool"
      "sequential tr (conv_block 128 256) enc1_pool = Inr enc2"
      "call tr (MaxPool2d 2) enc2 = Inr enc2_pool"
      "sequential tr (conv_block 256 512) enc2_pool = Inr enc3"
      "call tr (MaxPool2d 2) enc3 = Inr enc3_pool"
      "sequential tr (conv_block 512 1024) enc3_pool = Inr bottleneck"
      "call tr (ConvTranspose2d 1024 512 2 2) bottleneck = Inr up3"
      "cat [up3, enc3] (Suc 0) = Inr cat3"
      "sequential tr (conv_block 1024 512) cat3 = Inr dec3"
      "call tr (ConvTranspose2d 512 256 2 2) dec3 = Inr up2"
      "cat [up2, enc2] (Suc 0) = Inr cat2"
      "sequential tr (conv_block 512 256) cat2 = Inr dec2"
      "call tr (ConvTranspose2d 256 128 2 2) dec2 = Inr up1"
      "cat [up1, enc1] (Suc 0) = Inr cat1"
      "sequential tr (conv_block 256 128) cat1 = Inr dec1"
      "call tr (ConvTranspose2d 128 64 2 2) dec1 = Inr up0"
      "cat [up0, enc0] (Suc 0) = Inr cat0"
      "sequential tr (conv_block 128 64) cat0 = Inr dec0"
      "call tr (Conv2d 64 oc (Suc 0) 0) dec0 = Inr t"
    and "shape x = [b, ic, h, w]" "0 < h" "0 < w"
      "shape enc0 = [b, 64, h, w]"
      "shape enc1 = [b, 128, h div 2, w div 2]"
      "shape enc2 = [b, 256, h div 2 div 2, w div 2 div 2]"
      "shape enc3 = [b, 512, h div 2 div 2 div 2, w div 2 div 2 div 2]"
      "shape up3 = [b, 512, 2 * (h div 2 div 2 div 2 div 2), 2 * (w div 2 div 2 div 2 div 2)]"
      "shape up2 = [b, 256, 2 * (2 * (h div 2 div 2 div 2 div 2)),
                    2 * (2 * (w div 2 div 2 div 2 div 2))]"
      "shape up1 = [b, 128, 2 * (2 * (2 * (h div 2 div 2 div 2 div 2))),
                    2 * (2 * (2 * (w div 2 div 2 div 2 div 2)))]"
      "shape up0 = [b, 64, 2 * (2 * (2 * (2 * (h div 2 div 2 div 2 div 2)))),
                    2 * (2 * (2 * (2 * (w div 2 div 2 div 2 div 2))))]"
      "shape t = [b, oc, h, w]" "16 dvd h" "16 dvd w"
proof -
  from ok obtain enc0 enc0_pool enc1 enc1_pool enc2 enc2_pool enc3 enc3_pool bottleneck
      up3 cat3 dec3 up2 cat2 dec2 up1 cat1 dec1 up0 cat0 dec0
    where s: "sequential tr (conv_block ic 64) x = Inr enc0"
      "call tr (MaxPool2d 2) enc0 = Inr enc0_pool"
      "sequential tr (conv_block 64 128) enc0_pool = Inr enc1"
      "call tr (MaxPool2d 2) enc1 = Inr enc1_pool"
      "sequential tr (conv_block 128 256) enc1_pool = Inr enc2"
      "call tr (MaxPool2d 2) enc2 = Inr enc2_pool"
      "sequential tr (conv_block 256 512) enc2_pool = Inr enc3"
      "call tr (MaxPool2d 2) enc3 = Inr enc3_pool"
      "sequential tr (conv_block 512 1024) enc3_pool = Inr bottleneck"
      "call tr (ConvTranspose2d 1024 512 2 2) bottleneck = Inr up3"
      "cat [up3, enc3] (Suc 0) = Inr cat3"
      "sequential tr (conv_block 1024 512) cat3 = Inr dec3"
      "call tr (ConvTranspose2d 512 256 2 2) dec3 = Inr up2"
      "cat [up2, enc2] (Suc 0) = Inr cat2"
      "sequential tr (conv_block 512 256) cat2 = Inr dec2"
      "call tr (ConvTranspose2d 256 128 2 2) dec2 = Inr up1"
      "cat [up1, enc1] (Suc 0) = Inr cat1"
      "sequential tr (conv_block 256 128) cat1 = Inr dec1"
      "call tr (ConvTranspose2d 128 64 2 2) dec1 = Inr up0"
      "cat [up0, enc0] (Suc 0) = Inr cat0"
      "sequential tr (conv_block 128 64) cat0 = Inr dec0"
      "call tr (Conv2d 64 oc (Suc 0) 0) dec0 = Inr t"
    unfolding forward_def
    apply (elim bind_InrE)
    apply (drule line_InrD)+
    apply (simp add: UNet_init_def)
    done
  from conv_block_inv[OF s(1)] obtain b h w
    where x: "shape x = [b, ic, h, w]" and e0: "shape enc0 = [b, 64, h, w]" "0 < h" "0 < w"
    by auto
  from pool_inv[OF s(2) e0(1)]
  have p0: "shape enc0_pool = [b, 64, h div 2, w div 2]"
    by auto
  from conv_block_inv[OF s(3)] p0
  have e1: "shape enc1 = [b, 128, h div 2, w div 2]"
    by auto
  from pool_inv[OF s(4) e1]
  have p1: "shape enc1_pool = [b, 128, h div 2 div 2, w div 2 div 2]"
    by auto
  from conv_block_inv[OF s(5)] p1
  have e2: "shape enc2 = [b, 256, h div 2 div 2, w div 2 div 2]"
    by auto
  from pool_inv[OF s(6) e2]
  have p2: "shape enc2_pool = [b, 256, h div 2 div 2 div 2, w div 2 div 2 div 2]"
    by auto
  from conv_block_inv[OF s(7)] p2
  have e3: "shape enc3 = [b, 512, h div 2 div 2 div 2, w div 2 div 2 div 2]"
    by auto
  from pool_inv[OF s(8) e3]
  have p3: "shape enc3_pool =
      [b, 512, h div 2 div 2 div 2 div 2, w div 2 div 2 div 2 div 2]"
    by auto
  from conv_block_inv[OF s(9)] p3
  have bt: "shape bottleneck =
      [b, 1024, h div 2 div 2 div 2 div 2, w div 2 div 2 div 2 div 2]"
    by auto
  note u3 = up_inv[OF s(10) bt]
  note c3 = cat_inv[OF s(11) u3 e3]
  from conv_block_inv[OF s(12)] c3
  have d3: "shape dec3 =
      [b, 512, 2 * (h div 2 div 2 div 2 div 2), 2 * (w div 2 div 2 div 2 div 2)]"
    by auto
  note u2 = up_inv[OF s(13) d3]
  note c2 = cat_inv[OF s(14) u2 e2]
  from conv_block_inv[OF s(15)] c2
  have d2: "shape dec2 =
      [b, 256, 2 * (2 * (h div 2 div 2 div 2 div 2)), 2 * (2 * (w div 2 div 2 div 2 div 2))]"
    by auto
  note u1 = up_inv[OF s(16) d2]
  note c1 = cat_inv[OF s(17) u1 e1]
  from conv_block_inv[OF s(18)] c1
  have d1: "shape dec1 =
      [b, 128, 2 * (2 * (2 * (h div 2 div 2 div 2 div 2))),
       2 * (2 * (2 * (w div 2 div 2 div 2 div 2)))]"
    by auto
  note u0 = up_inv[OF s(19) d1]
  note c0 = cat_inv[OF s(20) u0 e0(1)]
  from conv_block_inv[OF s(21)] c0
  have d0: "shape dec0 =
      [b, 64, 2 * (2 * (2 * (2 * (h div 2 div 2 div 2 div 2)))),
       2 * (2 * (2 * (2 * (w div 2 div 2 div 2 div 2))))]"
    by auto
  note f = final_inv[OF s(22) d0]
  from c0 have hw: "h = 16 * (h div 2 div 2 div 2 div 2)" "w = 16 * (w div 2 div 2 div 2 div 2)"
    by auto
  have dv: "16 dvd h" "16 dvd w" using hw by (metis dvd_triv_left)+
  have ft: "shape t = [b, oc, h, w]" using f hw by simp
  show thesis
    by (rule that [OF s x e0(2) e0(3) e0(1) e1 e2 e3 u3 u2 u1 u0 ft dv])
qed

lemma forward_success_dims:
  assumes ok: "forward ((UNet_init ic oc)\<lparr>training := tr\<rparr>) x = Inr t"
    and x: "shape x = [b, c, h, w]"
  shows "c = ic \<and> 0 < h \<and> 0 < w \<and> 16 dvd h \<and> 16 dvd w \<and> shape t = [b, oc, h, w]"
  using forward_run [OF ok] x by (metis list.inject)

text \<open>The shape that a trace denotes is the shape of the tensor that carries it.\<close>

lemma call_shape_of:
  assumes "call tr l x = Inr y" "shape_of tr s (val x) = Inr (shape x)"
  shows "shape_of tr s (val y) = Inr (shape y)"
  using assms by (auto simp: call_def split: sum.splits)

lemma sequential_shape_of:
  assumes "sequential tr ls x = Inr y" "shape_of tr s (val x) = Inr (shape x)"
  shows "shape_of tr s (val y) = Inr (shape y)"
  using assms
proof (induction ls arbitrary: x)
  case Nil
  then show ?case by simp
next
  case (Cons l ls)
  from Cons.prems(1) obtain z where z: "call tr l x = Inr z" "sequential tr ls z = Inr y"
    by (auto split: sum.splits)
  from Cons.IH [OF z(2) call_shape_of [OF z(1) Cons.prems(2)]] show ?case .
qed

lemma cat_shape_of:
  assumes "cat [x, y] (Suc 0) = Inr z" "shape_of tr s (val x) = Inr (shape x)"
    "shape_of tr s (val y) = Inr (shape y)"
  shows "shape_of tr s (val z) = Inr (shape z)"
  using assms by (auto simp: cat_def split: sum.splits)

text \<open>The forward pass of an image with fewer than 16 rows or columns.\<close>

lemma conv_block_kernel:
  assumes "h = 0 \<or> w = 0" "0 < cout"
  shows "sequential tr (conv_block cin cout) \<lparr>shape = [b, cin, h, w], val = e\<rparr> = Inl KernelTooLarge"
  using assms by (auto simp: conv_block_def call_def shape_defs)

lemma conv_block_bn:
  assumes "0 < h" "0 < w" "0 < cin" "0 < cout" "tr" "b * h * w = 1"
  shows "sequential tr (conv_block cin cout) \<lparr>shape = [b, cin, h, w], val = e\<rparr> =
     Inl OneValuePerChannel"
  using assms by (auto simp: conv_block_def call_def shape_defs)

lemma pool_starved:
  assumes "h < 2 \<or> w < 2"
  shows "call tr (MaxPool2d 2) \<lparr>shape = [b, c, h, w], val = e\<rparr> = Inl OutputTooSmall"
  using assms by (auto simp: call_def shape_defs)

lemma forward_no_rows:
  assumes "h = 0 \<or> w = 0"
  shows "forward ((UNet_init ic oc)\<lparr>training := tr\<rparr>) \<lparr>shape = [b, ic, h, w], val = v\<rparr> =
     Inl (51, KernelTooLarge)"
  using assms
  by (simp add: forward_def UNet_init_def conv_block_kernel bind_Inl line_Inl)

lemma forward_starved:
  fixes h0 w0 h1 w1 h2 w2 h3 w3 b :: nat
  assumes ic: "0 < ic"
    and halves: "h0 div 2 = h1" "w0 div 2 = w1" "h1 div 2 = h2" "w1 div 2 = w2"
      "h2 div 2 = h3" "w2 div 2 = w3"
  shows "0 < h0 \<Longrightarrow> 0 < w0 \<Longrightarrow> h0 < 2 \<or> w0 < 2 \<Longrightarrow>
      forward ((UNet_init ic oc)\<lparr>training := tr\<rparr>) \<lparr>shape = [b, ic, h0, w0], val = v\<rparr> =
        (if tr \<and> b * h0 * w0 = 1 then Inl (51, OneValuePerChannel) else Inl (52, OutputTooSmall))"
    and "2 \<le> h0 \<Longrightarrow> 2 \<le> w0 \<Longrightarrow> h1 < 2 \<or> w1 < 2 \<Longrightarrow>
      forward ((UNet_init ic oc)\<lparr>training := tr\<rparr>) \<lparr>shape = [b, ic, h0, w0], val = v\<rparr> =
        (if tr \<and> b * h1 * w1 = 1 then Inl (54, OneValuePerChannel) else Inl (55, OutputTooSmall))"
    and "2 \<le> h0 \<Longrightarrow> 2 \<le> w0 \<Longrightarrow> 2 \<le> h1 \<Longrightarrow> 2 \<le> w1 \<Longrightarrow> h2 < 2 \<or> w2 < 2 \<Longrightarrow>
      forward ((UNet_init ic oc)\<lparr>training := tr\<rparr>) \<lparr>shape = [b, ic, h0, w0], val = v\<rparr> =
        (if tr \<and> b * h2 * w2 = 1 then Inl (57, OneValuePerChannel) else Inl (58, OutputTooSmall))"
    and "2 \<le> h0 \<Longrightarrow> 2 \<le> w0 \<Longrightarrow> 2 \<le> h1 \<Longrightarrow> 2 \<le> w1 \<Longrightarrow> 2 \<le> h2 \<Longrightarrow> 2 \<le> w2 \<Longrightarrow>
      h3 < 2 \<or> w3 < 2 \<Longrightarrow>
      forward ((UNet_init ic oc)\<lparr>training := tr\<rparr>) \<lparr>shape = [b, ic, h0, w0], val = v\<rparr> =
        (if tr \<and> b * h3 * w3 = 1 then Inl (60, OneValuePerChannel) else Inl (61, OutputTooSmall))"
proof -
  show "0 < h0 \<Longrightarrow> 0 < w0 \<Longrightarrow> h0 < 2 \<or> w0 < 2 \<Longrightarrow>
      forward ((UNet_init ic oc)\<lparr>training := tr\<rparr>) \<lparr>shape = [b, ic, h0, w0], val = v\<rparr> =
        (if tr \<and> b * h0 * w0 = 1 then Inl (51, OneValuePerChannel) else Inl (52, OutputTooSmall))"
    using ic
    by (cases "tr \<and> b * h0 * w0 = 1")
      (simp_all add: forward_def UNet_init_def conv_block_ok conv_block_bn pool_starved
        bind_Inr bind_Inl line_Inr line_Inl)
next
  assume d: "2 \<le> h0" "2 \<le> w0" "h1 < 2 \<or> w1 < 2"
  have pos: "0 < h0" "0 < w0" "0 < h1" "0 < w1" using d halves by auto
  show "forward ((UNet_init ic oc)\<lparr>training := tr\<rparr>) \<lparr>shape = [b, ic, h0, w0], val = v\<rparr> =
        (if tr \<and> b * h1 * w1 = 1 then Inl (54, OneValuePerChannel) else Inl (55, OutputTooSmall))"
    using ic d pos
    by (cases "tr \<and> b * h1 * w1 = 1")
      (simp_all add: forward_def UNet_init_def conv_block_ok conv_block_ok2 conv_block_bn pool_ok
        pool_starved bind_Inr bind_Inl line_Inr line_Inl halves)
next
  assume d: "2 \<le> h0" "2 \<le> w0" "2 \<le> h1" "2 \<le> w1" "h2 < 2 \<or> w2 < 2"
  have pos: "0 < h0" "0 < w0" "0 < h1" "0 < w1" "0 < h2" "0 < w2" using d halves by auto
  show "forward ((UNet_init ic oc)\<lparr>training := tr\<rparr>) \<lparr>shape = [b, ic, h0, w0], val = v\<rparr> =
        (if tr \<and> b * h2 * w2 = 1 then Inl (57, OneValuePerChannel) else Inl (58, OutputTooSmall))"
    using ic d pos
    by (cases "tr \<and> b * h2 * w2 = 1")
      (simp_all add: forward_def UNet_init_def conv_block_ok conv_block_ok2 conv_block_bn pool_ok
        pool_starved bind_Inr bind_Inl line_Inr line_Inl halves)
next
  assume d: "2 \<le> h0" "2 \<le> w0" "2 \<le> h1" "2 \<le> w1" "2 \<le> h2" "2 \<le> w2" "h3 < 2 \<or> w3 < 2"
  have pos: "0 < h0" "0 < w0" "0 < h1" "0 < w1" "0 < h2" "0 < w2" "0 < h3" "0 < w3"
    using d halves by auto
  show "forward ((UNet_init ic oc)\<lparr>training := tr\<rparr>) \<lparr>shape = [b, ic, h0, w0], val = v\<rparr> =
        (if tr \<and> b * h3 * w3 = 1 then Inl (60, OneValuePerChannel) else Inl (61, OutputTooSmall))"
    using ic d pos
    by (cases "tr \<and> b * h3 * w3 = 1")
      (simp_all add: forward_def UNet_init_def conv_block_ok conv_block_ok2 conv_block_bn pool_ok
        pool_starved bind_Inr bind_Inl line_Inr line_Inl halves)
qed

lemma map_sum_shapeE:
  assumes "map_sum id shape r = Inr s"
  obtains t where "r = Inr t" "shape t = s"
  using assms by (cases r) auto

lemma map_sum_shape_InlD: "map_sum id shape r = Inl e \<Longrightarrow> r = Inl e"
  by (cases r) auto

lemma half_neq_iff: "2 * (n div 2) \<noteq> n \<longleftrightarrow> odd (n::nat)"
  by presburger

lemma half_odd: "odd (n::nat) \<Longrightarrow> 2 * (n div 2) = n - 1"
  by presburger

lemma dvd16_iff:
  "16 dvd (n::nat) \<longleftrightarrow> even n \<and> even (n div 2) \<and> even (n div 4) \<and> even (n div 8)"
  by presburger

subsection \<open>Output shape (C2)\<close>

text \<open>
  C2, as stated, fails on the code: 0 is divisible by 16, and an image without rows or
  columns is refused by the first convolution (its 3x3 kernel is larger than the padded
  input); a module is in training mode until \<open>eval()\<close> is called, where batch
  normalisation refuses the 1x1 bottleneck of a single 16x16 image; and a network
  configured with no output channels or no input channels is refused by its last and by
  its first convolution.
\<close>

theorem forward_shape_counterexample:
  "forward (eval (UNet_init 4 1)) \<lparr>shape = [1, 4, 0, 0], val = Input\<rparr> = Inl (51, KernelTooLarge)
   \<and> forward (UNet_init 4 1) \<lparr>shape = [1, 4, 16, 16], val = Input\<rparr> =
       Inl (63, OneValuePerChannel)
   \<and> forward (eval (UNet_init 4 0)) \<lparr>shape = [1, 4, 16, 16], val = Input\<rparr> =
       Inl (82, EmptyWeight)
   \<and> forward (eval (UNet_init 0 1)) \<lparr>shape = [1, 0, 16, 16], val = Input\<rparr> =
       Inl (51, EmptyWeight)"
  by (simp add: forward_def eval_def UNet_init_def conv_block_def bind_def line_def call_def
      shape_defs cat_def)

text \<open>
  C2, amended: for every 4-D input of shape batch x in\_channels x height x width whose
  height and width are positive multiples of 16, the forward pass of a network built by
  \<open>UNet_init\<close> with at least one input and one output channel returns a tensor of
  shape batch x out\_channels x height x width, in inference mode, and in training mode
  when the bottleneck holds more than one value per channel (batch * (height / 16) *
  (width / 16) is not 1).
\<close>

theorem forward_shape_multiple_of_16:
  assumes h: "16 dvd h" "0 < h" and w: "16 dvd w" "0 < w"
    and bn: "\<not> tr \<or> b * (h div 16) * (w div 16) \<noteq> 1"
    and ch: "0 < ic" "0 < oc"
  shows "\<exists>t. forward ((UNet_init ic oc)\<lparr>training := tr\<rparr>) \<lparr>shape = [b, ic, h, w], val = v\<rparr> = Inr t
           \<and> shape t = [b, oc, h, w]"
proof -
  from h obtain j where j: "h = 16 * j" "0 < j" by (auto elim: dvdE)
  from w obtain k where k: "w = 16 * k" "0 < k" by (auto elim: dvdE)
  have "map_sum id shape
          (forward ((UNet_init ic oc)\<lparr>training := tr\<rparr>) \<lparr>shape = [b, ic, h, w], val = v\<rparr>) =
        Inr [b, oc, h, w]"
    using forward_chain [of h w "8 * j" "8 * k" "4 * j" "4 * k" "2 * j" "2 * k" j k tr b ic oc v]
      j k bn ch by simp
  then show ?thesis by (auto elim: map_sum_shapeE)
qed

theorem forward_shape_multiple_of_16_witness:
  "\<exists>t. forward (UNet_init 4 1) \<lparr>shape = [1, 4, 256, 256], val = Input\<rparr> = Inr t
       \<and> shape t = [1, 1, 256, 256]"
  using forward_shape_multiple_of_16 [of 256 256 True 1 4 1 Input]
  by (simp add: UNet_init_def)

subsection \<open>Inputs that are not multiples of 16 (C8)\<close>

text \<open>
  C8, as stated, fails on the code: an 8x8 image is not divisible by 16, and its forward
  pass fails before any concatenation, at the fourth pooling (line 61), which is given a
  1x1 image.
\<close>

theorem forward_small_input_counterexample:
  "forward (eval (UNet_init 4 1)) \<lparr>shape = [1, 4, 8, 8], val = Input\<rparr> = Inl (61, OutputTooSmall)"
  by (simp add: forward_def eval_def UNet_init_def conv_block_def bind_def line_def call_def
      shape_defs cat_def)

text \<open>
  C8, amended: for a 4-D input with in\_channels channels whose height and width are not
  both divisible by 16, the forward pass never returns a tensor. With at least one input
  channel: when height and width are at least 16 (in inference mode, or in training mode
  with more than one value per channel at the bottleneck), it fails at the concatenation
  of the deepest decoder depth \<open>d\<close> at which the encoder's size \<open>height div 2 ^ d\<close> or
  \<open>width div 2 ^ d\<close> is odd, with the size mismatch "expected g - 1, got g" for that odd
  size \<open>g\<close>. When height or width is less than 16, it fails before any concatenation:
  at the first convolution (line 51) when the image has no rows or no columns, and
  otherwise at the first pooling that is given fewer than two rows or columns (depth
  \<open>d\<close>, line \<open>52 + 3 * d\<close>) or, in training mode with a single value per channel at
  that depth, at the batch normalisation of the conv block just before (line
  \<open>51 + 3 * d\<close>).
\<close>

theorem forward_fails_unless_multiple_of_16:
  assumes nd: "\<not> (16 dvd h \<and> 16 dvd w)"
  shows "(\<forall>t. forward ((UNet_init ic oc)\<lparr>training := tr\<rparr>) \<lparr>shape = [b, ic, h, w], val = v\<rparr> \<noteq> Inr t)
    \<and> (0 < ic \<and> 16 \<le> h \<and> 16 \<le> w \<and> (tr \<longrightarrow> b * (h div 16) * (w div 16) \<noteq> 1) \<longrightarrow>
        (let d = failing_depth h w;
             g = (if odd (h div 2 ^ d) then h div 2 ^ d else w div 2 ^ d)
         in forward ((UNet_init ic oc)\<lparr>training := tr\<rparr>) \<lparr>shape = [b, ic, h, w], val = v\<rparr> =
              Inl (cat_line d, CatSizeMismatch (g - 1) g)))
    \<and> (0 < ic \<and> (h < 16 \<or> w < 16) \<longrightarrow>
        (let d = starving_depth h w
         in forward ((UNet_init ic oc)\<lparr>training := tr\<rparr>) \<lparr>shape = [b, ic, h, w], val = v\<rparr> =
              (if h = 0 \<or> w = 0 then Inl (51, KernelTooLarge)
               else if tr \<and> b * (h div 2 ^ d) * (w div 2 ^ d) = 1
                 then Inl (block_line d, OneValuePerChannel)
               else Inl (pool_line d, OutputTooSmall))))"
proof (intro conjI allI impI)
  fix t
  show "forward ((UNet_init ic oc)\<lparr>training := tr\<rparr>) \<lparr>shape = [b, ic, h, w], val = v\<rparr> \<noteq> Inr t"
  proof
    assume "forward ((UNet_init ic oc)\<lparr>training := tr\<rparr>) \<lparr>shape = [b, ic, h, w], val = v\<rparr> = Inr t"
    from forward_success_dims [OF this, of b ic h w] nd show False by simp
  qed
next
  assume a: "0 < ic \<and> 16 \<le> h \<and> 16 \<le> w \<and> (tr \<longrightarrow> b * (h div 16) * (w div 16) \<noteq> 1)"
  then have ic: "0 < ic" by blast
  have hv: "h div 2 div 2 = h div 4" "h div 4 div 2 = h div 8" "h div 8 div 2 = h div 16"
    and wv: "w div 2 div 2 = w div 4" "w div 4 div 2 = w div 8" "w div 8 div 2 = w div 16"
    by (simp_all add: div_mult2_eq [symmetric])
  have big: "2 \<le> h" "2 \<le> w" "2 \<le> h div 2" "2 \<le> w div 2" "2 \<le> h div 4" "2 \<le> w div 4"
    "2 \<le> h div 8" "2 \<le> w div 8" "0 < h div 16" "0 < w div 16"
    using a by auto
  have bn: "\<not> tr \<or> b * (h div 16) * (w div 16) \<noteq> 1" using a by blast
  have odd_some: "odd h \<or> odd w \<or> odd (h div 2) \<or> odd (w div 2) \<or> odd (h div 4) \<or> odd (w div 4)
      \<or> odd (h div 8) \<or> odd (w div 8)"
    using nd by (auto simp: dvd16_iff)
  have h8: "2 * (h div 16) \<noteq> h div 8 \<longleftrightarrow> odd (h div 8)" "odd (h div 8) \<Longrightarrow> 2 * (h div 16) = h div 8 - 1"
    using half_neq_iff [of "h div 8"] half_odd [of "h div 8"] hv by auto
  have w8: "2 * (w div 16) \<noteq> w div 8 \<longleftrightarrow> odd (w div 8)" "odd (w div 8) \<Longrightarrow> 2 * (w div 16) = w div 8 - 1"
    using half_neq_iff [of "w div 8"] half_odd [of "w div 8"] wv by auto
  have h4: "2 * (h div 8) \<noteq> h div 4 \<longleftrightarrow> odd (h div 4)" "odd (h div 4) \<Longrightarrow> 2 * (h div 8) = h div 4 - 1"
    using half_neq_iff [of "h div 4"] half_odd [of "h div 4"] hv by auto
  have w4: "2 * (w div 8) \<noteq> w div 4 \<longleftrightarrow> odd (w div 4)" "odd (w div 4) \<Longrightarrow> 2 * (w div 8) = w div 4 - 1"
    using half_neq_iff [of "w div 4"] half_odd [of "w div 4"] wv by auto
  have h2: "2 * (h div 4) \<noteq> h div 2 \<longleftrightarrow> odd (h div 2)" "odd (h div 2) \<Longrightarrow> 2 * (h div 4) = h div 2 - 1"
    using half_neq_iff [of "h div 2"] half_odd [of "h div 2"] hv by auto
  have w2: "2 * (w div 4) \<noteq> w div 2 \<longleftrightarrow> odd (w div 2)" "odd (w div 2) \<Longrightarrow> 2 * (w div 4) = w div 2 - 1"
    using half_neq_iff [of "w div 2"] half_odd [of "w div 2"] wv by auto
  have h1: "2 * (h div 2) \<noteq> h \<longleftrightarrow> odd h" "odd h \<Longrightarrow> 2 * (h div 2) = h - 1"
    using half_neq_iff [of h] half_odd [of h] by auto
  have w1: "2 * (w div 2) \<noteq> w \<longleftrightarrow> odd w" "odd w \<Longrightarrow> 2 * (w div 2) = w - 1"
    using half_neq_iff [of w] half_odd [of w] by auto
  let ?r = "forward ((UNet_init ic oc)\<lparr>training := tr\<rparr>) \<lparr>shape = [b, ic, h, w], val = v\<rparr>"
  note ch = forward_chain [where oc = oc and v = v,
      OF big refl refl hv(1) wv(1) hv(2) wv(2) hv(3) wv(3) bn ic]
  note ch' = ch [unfolded h8(1) w8(1) h4(1) w4(1) h2(1) w2(1) h1(1) w1(1)]
  from odd_some consider (d3) "odd (h div 8) \<or> odd (w div 8)"
    | (d2) "even (h div 8)" "even (w div 8)" "odd (h div 4) \<or> odd (w div 4)"
    | (d1) "even (h div 8)" "even (w div 8)" "even (h div 4)" "even (w div 4)" "odd (h div 2) \<or> odd (w div 2)"
    | (d0) "even (h div 8)" "even (w div 8)" "even (h div 4)" "even (w div 4)" "even (h div 2)" "even (w div 2)"
        "odd h \<or> odd w"
    by blast
  then have "map_sum id shape ?r =
      Inl (cat_line (failing_depth h w),
           CatSizeMismatch
             ((if odd (h div 2 ^ failing_depth h w) then h div 2 ^ failing_depth h w
               else w div 2 ^ failing_depth h w) - 1)
             (if odd (h div 2 ^ failing_depth h w) then h div 2 ^ failing_depth h w
              else w div 2 ^ failing_depth h w))"
  proof cases
    case d3
    then have fd: "failing_depth h w = 3" by (simp add: failing_depth_def)
    show ?thesis unfolding fd using d3
      by (cases "odd (h div 8)") (simp_all add: ch' h8(2) w8(2) cat_line_def del: One_nat_def)
  next
    case d2
    then have fd: "failing_depth h w = 2" by (simp add: failing_depth_def)
    show ?thesis unfolding fd using d2
      by (cases "odd (h div 4)") (simp_all add: ch' h4(2) w4(2) cat_line_def del: One_nat_def)
  next
    case d1
    then have fd: "failing_depth h w = 1" by (simp add: failing_depth_def)
    show ?thesis unfolding fd using d1
      by (cases "odd (h div 2)") (simp_all add: ch' h2(2) w2(2) cat_line_def del: One_nat_def)
  next
    case d0
    then have fd: "failing_depth h w = 0" by (simp add: failing_depth_def)
    show ?thesis unfolding fd using d0
      by (cases "odd h") (simp_all add: ch' h1(2) w1(2) cat_line_def del: One_nat_def)
  qed
  then show "let d = failing_depth h w;
             g = (if odd (h div 2 ^ d) then h div 2 ^ d else w div 2 ^ d)
         in ?r = Inl (cat_line d, CatSizeMismatch (g - 1) g)"
    unfolding Let_def by (rule map_sum_shape_InlD)
next
  assume a: "0 < ic \<and> (h < 16 \<or> w < 16)"
  then have ic: "0 < ic" by blast
  have hv: "h div 2 div 2 = h div 4" "h div 4 div 2 = h div 8"
    and wv: "w div 2 div 2 = w div 4" "w div 4 div 2 = w div 8"
    by (simp_all add: div_mult2_eq [symmetric])
  note st = forward_starved [where oc = oc and tr = tr and b = b and v = v,
      OF ic refl refl hv(1) wv(1) hv(2) wv(2)]
  let ?r = "forward ((UNet_init ic oc)\<lparr>training := tr\<rparr>) \<lparr>shape = [b, ic, h, w], val = v\<rparr>"
  consider (z) "h = 0 \<or> w = 0" | (s0) "0 < h" "0 < w" "h < 2 \<or> w < 2"
    | (s1) "2 \<le> h" "2 \<le> w" "h < 4 \<or> w < 4" | (s2) "4 \<le> h" "4 \<le> w" "h < 8 \<or> w < 8"
    | (s3) "8 \<le> h" "8 \<le> w" "h < 16 \<or> w < 16"
    using a by linarith
  then have "?r =
      (if h = 0 \<or> w = 0 then Inl (51, KernelTooLarge)
       else if tr \<and> b * (h div 2 ^ starving_depth h w) * (w div 2 ^ starving_depth h w) = 1
         then Inl (block_line (starving_depth h w), OneValuePerChannel)
       else Inl (pool_line (starving_depth h w), OutputTooSmall))"
  proof cases
    case z
    then show ?thesis by (simp add: forward_no_rows)
  next
    case s0
    then have d: "starving_depth h w = 0" by (auto simp: starving_depth_def)
    from s0 show ?thesis unfolding d
      by (simp add: st(1) block_line_def pool_line_def del: One_nat_def)
  next
    case s1
    then have d: "starving_depth h w = 1" by (auto simp: starving_depth_def)
    from s1 have "h div 2 < 2 \<or> w div 2 < 2" by auto
    with s1 show ?thesis unfolding d
      by (simp add: st(2) block_line_def pool_line_def del: One_nat_def)
  next
    case s2
    then have d: "starving_depth h w = 2" by (auto simp: starving_depth_def)
    from s2 have "2 \<le> h" "2 \<le> w" "2 \<le> h div 2" "2 \<le> w div 2" "h div 4 < 2 \<or> w div 4 < 2"
      by auto
    with s2 show ?thesis unfolding d
      by (simp add: st(3) block_line_def pool_line_def del: One_nat_def)
  next
    case s3
    then have d: "starving_depth h w = 3" by (auto simp: starving_depth_def)
    from s3 have "2 \<le> h" "2 \<le> w" "2 \<le> h div 2" "2 \<le> w div 2" "2 \<le> h div 4" "2 \<le> w div 4"
      "h div 8 < 2 \<or> w div 8 < 2"
      by auto
    with s3 show ?thesis unfolding d
      by (simp add: st(4) block_line_def pool_line_def del: One_nat_def)
  qed
  then show "let d = starving_depth h w
         in ?r =
              (if h = 0 \<or> w = 0 then Inl (51, KernelTooLarge)
               else if tr \<and> b * (h div 2 ^ d) * (w div 2 ^ d) = 1
                 then Inl (block_line d, OneValuePerChannel)
               else Inl (pool_line d, OutputTooSmall))"
    by (simp add: Let_def)
qed

theorem forward_fails_unless_multiple_of_16_witness:
  "\<not> (16 dvd (17::nat) \<and> 16 dvd (17::nat)) \<and>
   forward (eval (UNet_init 4 1)) \<lparr>shape = [1, 4, 17, 17], val = Input\<rparr> =
     Inl (79, CatSizeMismatch 16 17) \<and>
   \<not> (16 dvd (12::nat) \<and> 16 dvd (40::nat)) \<and>
   forward (UNet_init 4 1) \<lparr>shape = [2, 4, 12, 40], val = Input\<rparr> =
     Inl (61, OutputTooSmall)"
  using forward_fails_unless_multiple_of_16
    [where h = 17 and w = 17 and ic = 4 and oc = 1 and tr = False and b = 1 and v = Input]
    forward_fails_unless_multiple_of_16
    [where h = 12 and w = 40 and ic = 4 and oc = 1 and tr = True and b = 2 and v = Input]
  by (simp add: failing_depth_def cat_line_def eval_def starving_depth_def pool_line_def
      UNet_init_def)

subsection \<open>Channel widths at the concatenations (C4)\<close>

text \<open>
  On a 4-D input with the configured number of channels the forward pass never fails
  for a number of channels: not at a concatenation, and not in the layer that takes it.
\<close>

lemma forward_bottleneck_bn:
  fixes h0 w0 h1 w1 h2 w2 h3 w3 h4 w4 b :: nat
  assumes dims: "2 \<le> h0" "2 \<le> w0" "2 \<le> h1" "2 \<le> w1" "2 \<le> h2" "2 \<le> w2"
      "2 \<le> h3" "2 \<le> w3" "0 < h4" "0 < w4"
    and halves: "h0 div 2 = h1" "w0 div 2 = w1" "h1 div 2 = h2" "w1 div 2 = w2"
      "h2 div 2 = h3" "w2 div 2 = w3" "h3 div 2 = h4" "w3 div 2 = w4"
    and bn: "tr" "b * h4 * w4 = 1"
    and ch: "0 < ic"
  shows "forward ((UNet_init ic oc)\<lparr>training := tr\<rparr>) \<lparr>shape = [b, ic, h0, w0], val = v\<rparr> =
     Inl (63, OneValuePerChannel)"
proof -
  have pos: "0 < h0" "0 < w0" using dims by auto
  show ?thesis
    using dims pos bn ch
    by (simp add: forward_def UNet_init_def conv_block_ok2 conv_block_bn pool_ok
        bind_Inr bind_Inl line_Inr line_Inl halves)
qed

lemma forward_no_channel_error:
  assumes ic: "0 < ic"
  shows "forward ((UNet_init ic oc)\<lparr>training := tr\<rparr>) \<lparr>shape = [b, ic, h, w], val = v\<rparr> \<noteq>
     Inl (l, ChannelMismatch c c')"
proof -
  let ?r = "forward ((UNet_init ic oc)\<lparr>training := tr\<rparr>) \<lparr>shape = [b, ic, h, w], val = v\<rparr>"
  have hv: "h div 2 div 2 = h div 4" "h div 4 div 2 = h div 8" "h div 8 div 2 = h div 16"
    and wv: "w div 2 div 2 = w div 4" "w div 4 div 2 = w div 8" "w div 8 div 2 = w div 16"
    by (simp_all add: div_mult2_eq [symmetric])
  note st = forward_starved [where oc = oc and tr = tr and b = b and v = v,
      OF ic refl refl hv(1) wv(1) hv(2) wv(2)]
  consider (z) "h = 0 \<or> w = 0" | (s0) "0 < h" "0 < w" "h < 2 \<or> w < 2"
    | (s1) "2 \<le> h" "2 \<le> w" "h < 4 \<or> w < 4" | (s2) "4 \<le> h" "4 \<le> w" "h < 8 \<or> w < 8"
    | (s3) "8 \<le> h" "8 \<le> w" "h < 16 \<or> w < 16" | (big) "16 \<le> h" "16 \<le> w"
    by linarith
  then show ?thesis
  proof cases
    case z
    then show ?thesis by (simp add: forward_no_rows)
  next
    case s0
    then show ?thesis by (simp add: st(1))
  next
    case s1
    then have "h div 2 < 2 \<or> w div 2 < 2" by auto
    with s1 show ?thesis by (simp add: st(2))
  next
    case s2
    then have "2 \<le> h" "2 \<le> w" "2 \<le> h div 2" "2 \<le> w div 2" "h div 4 < 2 \<or> w div 4 < 2"
      by auto
    then show ?thesis by (simp add: st(3))
  next
    case s3
    then have "2 \<le> h" "2 \<le> w" "2 \<le> h div 2" "2 \<le> w div 2" "2 \<le> h div 4" "2 \<le> w div 4"
      "h div 8 < 2 \<or> w div 8 < 2"
      by auto
    then show ?thesis by (simp add: st(4))
  next
    case big
    then have dims: "2 \<le> h" "2 \<le> w" "2 \<le> h div 2" "2 \<le> w div 2" "2 \<le> h div 4" "2 \<le> w div 4"
      "2 \<le> h div 8" "2 \<le> w div 8" "0 < h div 16" "0 < w div 16"
      by auto
    show ?thesis
    proof (cases "tr \<and> b * (h div 16) * (w div 16) = 1")
      case True
      then have bn: "tr" "b * (h div 16) * (w div 16) = 1" by auto
      from forward_bottleneck_bn [where oc = oc and v = v,
          OF dims refl refl hv(1) wv(1) hv(2) wv(2) hv(3) wv(3) bn ic]
      show ?thesis by simp
    next
      case False
      then have bn: "\<not> tr \<or> b * (h div 16) * (w div 16) \<noteq> 1" by auto
      note chain = forward_chain [where oc = oc and v = v,
          OF dims refl refl hv(1) wv(1) hv(2) wv(2) hv(3) wv(3) bn ic]
      show ?thesis
      proof
        assume "?r = Inl (l, ChannelMismatch c c')"
        then have "map_sum id shape ?r = Inl (l, ChannelMismatch c c')" by simp
        with chain show False by (simp split: if_splits)
      qed
    qed
  qed
qed

text \<open>
  C4: in every forward pass that returns, four concatenations are made, each of the
  output of a transposed convolution with the encoder's skip tensor of the matching
  depth, and each is the input of a convolution whose declared input width is the sum of
  the channels of the two: 64 + 64 = 128 at depth 0, 128 + 128 = 256 at depth 1,
  256 + 256 = 512 at depth 2 and 512 + 512 = 1024 at depth 3 (the outermost
  concatenation, of depth 0, first). The channels are those of the tensors as the
  operators compute them, whatever the weights. So the channels are consistent at all
  four depths: on a 4-D input with the configured number of channels (at least one), no
  statement of the forward pass fails for the number of channels of its input.
\<close>

theorem decoder_channels_consistent:
  "(forward ((UNet_init ic oc)\<lparr>training := tr\<rparr>) x = Inr t \<and> val x = Input \<longrightarrow>
      fusions tr (shape x) (val t) =
        [([True, False], [None, Some 0], [Some 64, Some 64], Some (64 + 64)),
         ([True, False], [None, Some 1], [Some 128, Some 128], Some (128 + 128)),
         ([True, False], [None, Some 2], [Some 256, Some 256], Some (256 + 256)),
         ([True, False], [None, Some 3], [Some 512, Some 512], Some (512 + 512))])
   \<and> (0 < ic \<longrightarrow>
        forward ((UNet_init ic oc)\<lparr>training := tr\<rparr>) \<lparr>shape = [b, ic, h, w], val = v\<rparr> \<noteq>
          Inl (l, ChannelMismatch c c'))"
proof (intro conjI impI)
  assume "0 < ic"
  then show "forward ((UNet_init ic oc)\<lparr>training := tr\<rparr>) \<lparr>shape = [b, ic, h, w], val = v\<rparr> \<noteq>
      Inl (l, ChannelMismatch c c')"
    by (rule forward_no_channel_error)
next
  assume "forward ((UNet_init ic oc)\<lparr>training := tr\<rparr>) x = Inr t \<and> val x = Input"
  then have ok: "forward ((UNet_init ic oc)\<lparr>training := tr\<rparr>) x = Inr t" and inp: "val x = Input"
    by blast+
  show "fusions tr (shape x) (val t) =
     [([True, False], [None, Some 0], [Some 64, Some 64], Some (64 + 64)),
      ([True, False], [None, Some 1], [Some 128, Some 128], Some (128 + 128)),
      ([True, False], [None, Some 2], [Some 256, Some 256], Some (256 + 256)),
      ([True, False], [None, Some 3], [Some 512, Some 512], Some (512 + 512))]"
  proof (rule forward_run [OF ok])
    fix b h w enc0 enc0_pool enc1 enc1_pool enc2 enc2_pool enc3 enc3_pool bottleneck
      up3 cat3 dec3 up2 cat2 dec2 up1 cat1 dec1 up0 cat0 dec0
    assume s: "sequential tr (conv_block ic 64) x = Inr enc0"
        "call tr (MaxPool2d 2) enc0 = Inr enc0_pool"
        "sequential tr (conv_block 64 128) enc0_pool = Inr enc1"
        "call tr (MaxPool2d 2) enc1 = Inr enc1_pool"
        "sequential tr (conv_block 128 256) enc1_pool = Inr enc2"
        "call tr (MaxPool2d 2) enc2 = Inr enc2_pool"
        "sequential tr (conv_block 256 512) enc2_pool = Inr enc3"
        "call tr (MaxPool2d 2) enc3 = Inr enc3_pool"
        "sequential tr (conv_block 512 1024) enc3_pool = Inr bottleneck"
        "call tr (ConvTranspose2d 1024 512 2 2) bottleneck = Inr up3"
        "cat [up3, enc3] (Suc 0) = Inr cat3"
        "sequential tr (conv_block 1024 512) cat3 = Inr dec3"
        "call tr (ConvTranspose2d 512 256 2 2) dec3 = Inr up2"
        "cat [up2, enc2] (Suc 0) = Inr cat2"
        "sequential tr (conv_block 512 256) cat2 = Inr dec2"
        "call tr (ConvTranspose2d 256 128 2 2) dec2 = Inr up1"
        "cat [up1, enc1] (Suc 0) = Inr cat1"
        "sequential tr (conv_block 256 128) cat1 = Inr dec1"
        "call tr (ConvTranspose2d 128 64 2 2) dec1 = Inr up0"
        "cat [up0, enc0] (Suc 0) = Inr cat0"
        "sequential tr (conv_block 128 64) cat0 = Inr dec0"
        "call tr (Conv2d 64 oc (Suc 0) 0) dec0 = Inr t"
      and xs: "shape x = [b, ic, h, w]" "0 < h" "0 < w"
      and sh: "shape enc0 = [b, 64, h, w]"
        "shape enc1 = [b, 128, h div 2, w div 2]"
        "shape enc2 = [b, 256, h div 2 div 2, w div 2 div 2]"
        "shape enc3 = [b, 512, h div 2 div 2 div 2, w div 2 div 2 div 2]"
        "shape up3 = [b, 512, 2 * (h div 2 div 2 div 2 div 2), 2 * (w div 2 div 2 div 2 div 2)]"
        "shape up2 = [b, 256, 2 * (2 * (h div 2 div 2 div 2 div 2)),
                      2 * (2 * (w div 2 div 2 div 2 div 2))]"
        "shape up1 = [b, 128, 2 * (2 * (2 * (h div 2 div 2 div 2 div 2))),
                      2 * (2 * (2 * (w div 2 div 2 div 2 div 2)))]"
        "shape up0 = [b, 64, 2 * (2 * (2 * (2 * (h div 2 div 2 div 2 div 2)))),
                      2 * (2 * (2 * (2 * (w div 2 div 2 div 2 div 2))))]"
    txt \<open>The traces of the tensors.\<close>
    note v = sequential_val [OF s(1)] call_val [OF s(2)] sequential_val [OF s(3)]
      call_val [OF s(4)] sequential_val [OF s(5)] call_val [OF s(6)] sequential_val [OF s(7)]
      call_val [OF s(8)] sequential_val [OF s(9)] call_val [OF s(10)] cat_val [OF s(11)]
      sequential_val [OF s(12)] call_val [OF s(13)] cat_val [OF s(14)] sequential_val [OF s(15)]
      call_val [OF s(16)] cat_val [OF s(17)] sequential_val [OF s(18)] call_val [OF s(19)]
      cat_val [OF s(20)] sequential_val [OF s(21)] call_val [OF s(22)]
    have cn: "cat_nodes (val t) =
        [[val up0, val enc0], [val up1, val enc1], [val up2, val enc2], [val up3, val enc3]]"
      by (simp add: v inp trace_seq_def conv_block_def)
    have cu: "cat_user_widths (val t) = [Some 128, Some 256, Some 512, Some 1024]"
      by (simp add: v inp trace_seq_def conv_block_def)
    have up: "is_upsampled (val up0)" "is_upsampled (val up1)" "is_upsampled (val up2)"
      "is_upsampled (val up3)"
      by (simp_all add: v(10) v(13) v(16) v(19))
    have sk: "\<not> is_upsampled (val enc0)" "\<not> is_upsampled (val enc1)" "\<not> is_upsampled (val enc2)"
      "\<not> is_upsampled (val enc3)"
      by (simp_all add: v inp trace_seq_def conv_block_def)
    have du: "skip_depth (val up0) = None" "skip_depth (val up1) = None"
      "skip_depth (val up2) = None" "skip_depth (val up3) = None"
      by (simp_all add: v(10) v(13) v(16) v(19))
    have de: "skip_depth (val enc0) = Some 0" "skip_depth (val enc1) = Some 1"
      "skip_depth (val enc2) = Some 2" "skip_depth (val enc3) = Some 3"
      by (simp_all add: v inp trace_seq_def conv_block_def)
    txt \<open>The shapes that the traces denote.\<close>
    let ?so = "shape_of tr (shape x)"
    have i_x: "?so (val x) = Inr (shape x)" by (simp add: inp)
    note i_enc0 = sequential_shape_of [OF s(1) i_x]
    note i_p0 = call_shape_of [OF s(2) i_enc0]
    note i_enc1 = sequential_shape_of [OF s(3) i_p0]
    note i_p1 = call_shape_of [OF s(4) i_enc1]
    note i_enc2 = sequential_shape_of [OF s(5) i_p1]
    note i_p2 = call_shape_of [OF s(6) i_enc2]
    note i_enc3 = sequential_shape_of [OF s(7) i_p2]
    note i_p3 = call_shape_of [OF s(8) i_enc3]
    note i_bt = sequential_shape_of [OF s(9) i_p3]
    note i_up3 = call_shape_of [OF s(10) i_bt]
    note i_cat3 = cat_shape_of [OF s(11) i_up3 i_enc3]
    note i_dec3 = sequential_shape_of [OF s(12) i_cat3]
    note i_up2 = call_shape_of [OF s(13) i_dec3]
    note i_cat2 = cat_shape_of [OF s(14) i_up2 i_enc2]
    note i_dec2 = sequential_shape_of [OF s(15) i_cat2]
    note i_up1 = call_shape_of [OF s(16) i_dec2]
    note i_cat1 = cat_shape_of [OF s(17) i_up1 i_enc1]
    note i_dec1 = sequential_shape_of [OF s(18) i_cat1]
    note i_up0 = call_shape_of [OF s(19) i_dec1]
    have ch: "channels_of tr (shape x) (val up0) = Some 64"
      "channels_of tr (shape x) (val enc0) = Some 64"
      "channels_of tr (shape x) (val up1) = Some 128"
      "channels_of tr (shape x) (val enc1) = Some 128"
      "channels_of tr (shape x) (val up2) = Some 256"
      "channels_of tr (shape x) (val enc2) = Some 256"
      "channels_of tr (shape x) (val up3) = Some 512"
      "channels_of tr (shape x) (val enc3) = Some 512"
      by (simp_all add: channels_of_def i_up0 i_enc0 i_up1 i_enc1 i_up2 i_enc2 i_up3 i_enc3 sh)
    show ?thesis
      by (simp add: fusions_def cn cu up sk du de ch)
  qed
qed

theorem decoder_channels_consistent_witness:
  "\<exists>t. forward (eval (UNet_init 4 1)) \<lparr>shape = [1, 4, 16, 16], val = Input\<rparr> = Inr t \<and>
     fusions False [1, 4, 16, 16] (val t) =
       [([True, False], [None, Some 0], [Some 64, Some 64], Some 128),
        ([True, False], [None, Some 1], [Some 128, Some 128], Some 256),
        ([True, False], [None, Some 2], [Some 256, Some 256], Some 512),
        ([True, False], [None, Some 3], [Some 512, Some 512], Some 1024)]
   \<and> forward (eval (UNet_init 4 1)) \<lparr>shape = [1, 4, 17, 17], val = Input\<rparr> \<noteq>
       Inl (68, ChannelMismatch 1024 768)"
proof -
  obtain t where t: "forward ((UNet_init 4 1)\<lparr>training := False\<rparr>)
      \<lparr>shape = [1, 4, 16, 16], val = Input\<rparr> = Inr t"
    by (simp add: forward_def UNet_init_def conv_block_def bind_def line_def call_def
        shape_defs cat_def)
  from decoder_channels_consistent
    [where ic = 4 and oc = 1 and tr = False and x = "\<lparr>shape = [1, 4, 16, 16], val = Input\<rparr>"
      and t = t and b = 1 and h = 17 and w = 17 and v = Input and l = 68
      and c = 1024 and c' = 768] t
  show ?thesis
    by (simp add: eval_def)
qed

subsection \<open>Order of the concatenated operands (C6)\<close>

text \<open>
  C6: whenever the forward pass returns, its trace has four concatenations, each of two
  operands: the first is the upsampled tensor (the output of the transposed convolution)
  and the second is the encoder's skip tensor of the matching depth (outermost
  concatenation first: depths 0, 1, 2, 3); never the reverse order.
\<close>

theorem forward_cat_order:
  assumes ok: "forward ((UNet_init ic oc)\<lparr>training := tr\<rparr>) x = Inr t" and inp: "val x = Input"
  shows "map (\<lambda>ops. (map is_upsampled ops, map skip_depth ops)) (cat_nodes (val t)) =
     [([True, False], [None, Some 0]), ([True, False], [None, Some 1]),
      ([True, False], [None, Some 2]), ([True, False], [None, Some 3])]"
  using ok unfolding forward_def
  apply (elim bind_InrE)
  apply (drule line_InrD)+
  apply (simp add: UNet_init_def)
  apply (drule call_val sequential_val cat_val)+
  apply (simp add: inp trace_seq_def conv_block_def)
  done

theorem forward_cat_order_witness:
  "\<exists>t. forward (eval (UNet_init 4 1)) \<lparr>shape = [1, 4, 16, 16], val = Input\<rparr> = Inr t \<and>
     map (\<lambda>ops. (map is_upsampled ops, map skip_depth ops)) (cat_nodes (val t)) =
     [([True, False], [None, Some 0]), ([True, False], [None, Some 1]),
      ([True, False], [None, Some 2]), ([True, False], [None, Some 3])]"
proof -
  obtain t where t: "forward ((UNet_init 4 1)\<lparr>training := False\<rparr>)
      \<lparr>shape = [1, 4, 16, 16], val = Input\<rparr> = Inr t"
    by (simp add: forward_def UNet_init_def conv_block_def bind_def line_def call_def
        shape_defs cat_def)
  from forward_cat_order [OF t] t show ?thesis
    by (simp add: eval_def)
qed

section \<open>The model builder of Cell\_Classification/src/utils.py\<close>

subsection \<open>Python exceptions and modules\<close>

datatype exn =
    ValueError string
  | TypeError string
  | AttributeError string
  | IndexError string
  | OSError string
  | SystemError string
  | Exception string       \<comment> \<open>any other exception, with its message\<close>

text \<open>
  An \<open>nn.Module\<close> is a tree: its own parameters, each with its \<open>requires_grad\<close> flag,
  and its named sub-modules in registration order. A linear layer also has its
  \<open>in_features\<close> and \<open>out_features\<close>. The weights themselves are not modelled.
\<close>

datatype module =
  Module (features: "(nat \<times> nat) option")
         (own_params: "(string \<times> bool) list")
         (submodules: "(string \<times> module) list")

definition Linear :: "nat \<Rightarrow> nat \<Rightarrow> module" where
  "Linear n_in n_out = Module (Some (n_in, n_out)) [(''weight'', True), (''bias'', True)] []"

text \<open>Layers without parameters (dropout, activations, pooling).\<close>

definition Parameterless :: module where
  "Parameterless = Module None [] []"

definition Sequential2 :: "module \<Rightarrow> module \<Rightarrow> module" where
  "Sequential2 m0 m1 = Module None [] [(''0'', m0), (''1'', m1)]"

definition Sequential4 :: "module \<Rightarrow> module \<Rightarrow> module \<Rightarrow> module \<Rightarrow> module" where
  "Sequential4 m0 m1 m2 m3 = Module None [] [(''0'', m0), (''1'', m1), (''2'', m2), (''3'', m3)]"

text \<open>\<open>Module.named_parameters()\<close>: every parameter with its path and its flag.\<close>

fun named_parameters :: "module \<Rightarrow> (string list \<times> bool) list" where
  "named_parameters (Module f ps cs) =
     map (\<lambda>ng. ([fst ng], snd ng)) ps @
     concat (map (\<lambda>nc. map (\<lambda>pg. (fst nc # fst pg, snd pg)) (named_parameters (snd nc))) cs)"

text \<open>\<open>for param in m.parameters(): param.requires_grad = g\<close>\<close>

fun set_requires_grad :: "bool \<Rightarrow> module \<Rightarrow> module" where
  "set_requires_grad g (Module f ps cs) =
     Module f (map (\<lambda>ng. (fst ng, g)) ps) (map (\<lambda>nc. (fst nc, set_requires_grad g (snd nc))) cs)"

text \<open>Attribute access on a module: its sub-modules, its parameters, a linear layer's sizes.\<close>

definition hasattr :: "module \<Rightarrow> string \<Rightarrow> bool" where
  "hasattr m name =
     (map_of (submodules m) name \<noteq> None \<or> map_of (own_params m) name \<noteq> None
      \<or> (features m \<noteq> None \<and> (name = ''in_features'' \<or> name = ''out_features'')))"

definition getattr :: "module \<Rightarrow> string \<Rightarrow> exn + module" where
  "getattr m name =
     (case map_of (submodules m) name of
        Some c \<Rightarrow> Inr c
      | None \<Rightarrow> Inl (AttributeError name))"

fun replace_child :: "string \<Rightarrow> module \<Rightarrow> (string \<times> module) list \<Rightarrow> (string \<times> module) list" where
  "replace_child name x [] = [(name, x)]"
| "replace_child name x ((n, c) # cs) =
     (if n = name then (n, x) # cs else (n, c) # replace_child name x cs)"

definition setattr :: "module \<Rightarrow> string \<Rightarrow> module \<Rightarrow> module" where
  "setattr m name x = Module (features m) (own_params m) (replace_child name x (submodules m))"

definition in_features :: "module \<Rightarrow> exn + nat" where
  "in_features m =
     (case features m of Some (n_in, n_out) \<Rightarrow> Inr n_in | None \<Rightarrow> Inl (AttributeError ''in_features''))"

text \<open>Indexing an \<open>nn.Sequential\<close> by position.\<close>

definition getitem :: "module \<Rightarrow> nat \<Rightarrow> exn + module" where
  "getitem m i =
     (if i < length (submodules m) then Inr (snd (submodules m ! i))
      else Inl (IndexError ''index out of range''))"

definition setitem :: "module \<Rightarrow> nat \<Rightarrow> module \<Rightarrow> exn + module" where
  "setitem m i x =
     (if i < length (submodules m)
      then Inr (Module (features m) (own_params m)
                  ((submodules m)[i := (fst (submodules m ! i), x)]))
      else Inl (IndexError ''index out of range''))"

text \<open>\<open>s.startswith(p)\<close>\<close>

definition startswith :: "'a list \<Rightarrow> 'a list \<Rightarrow> bool" where
  "startswith s p = (take (length p) s = p)"

subsection \<open>The torchvision architectures\<close>

text \<open>
  The constructors of torchvision, as far as the builder looks at them: the names of the
  top-level sub-modules and the layout of the classification head. The feature
  extractors, whose insides play no role, are the parameter \<open>parts\<close>. The weights
  argument chooses the numbers only.
\<close>

datatype weights = DEFAULT

definition vit_b_16 :: "(string \<Rightarrow> module) \<Rightarrow> weights option \<Rightarrow> module" where
  "vit_b_16 parts w =
     Module None [(''class_token'', True)]
       [(''conv_proj'', parts ''vit_b_16.conv_proj''),
        (''encoder'', parts ''vit_b_16.encoder''),
        (''heads'', Module None [] [(''head'', Linear 768 1000)])]"

definition vit_b_32 :: "(string \<Rightarrow> module) \<Rightarrow> weights option \<Rightarrow> module" where
  "vit_b_32 parts w =
     Module None [(''class_token'', True)]
       [(''conv_proj'', parts ''vit_b_32.conv_proj''),
        (''encoder'', parts ''vit_b_32.encoder''),
        (''heads'', Module None [] [(''head'', Linear 768 1000)])]"

definition resnet :: "(string \<Rightarrow> module) \<Rightarrow> string \<Rightarrow> module" where
  "resnet parts name =
     Module None []
       [(''conv1'', parts (name @ ''.conv1'')),
        (''bn1'', parts (name @ ''.bn1'')),
        (''relu'', Parameterless),
        (''maxpool'', Parameterless),
        (''layer1'', parts (name @ ''.layer1'')),
        (''layer2'', parts (name @ ''.layer2'')),
        (''layer3'', parts (name @ ''.layer3'')),
        (''layer4'', parts (name @ ''.layer4'')),
        (''avgpool'', Parameterless),
        (''fc'', Linear 2048 1000)]"

definition resnet101 :: "(string \<Rightarrow> module) \<Rightarrow> weights option \<Rightarrow> module" where
  "resnet101 parts w = resnet parts ''resnet101''"

definition resnet50 :: "(string \<Rightarrow> module) \<Rightarrow> weights option \<Rightarrow> module" where
  "resnet50 parts w = resnet parts ''resnet50''"

definition efficientnet_b0 :: "(string \<Rightarrow> module) \<Rightarrow> weights option \<Rightarrow> module" where
  "efficientnet_b0 parts w =
     Module None []
       [(''features'', parts ''efficientnet_b0.features''),
        (''avgpool'', Parameterless),
        (''classifier'', Sequential2 Parameterless (Linear 1280 1000))]"

definition efficientnet_b4 :: "(string \<Rightarrow> module) \<Rightarrow> weights option \<Rightarrow> module" where
  "efficientnet_b4 parts w =
     Module None []
       [(''features'', parts ''efficientnet_b4.features''),
        (''avgpool'', Parameterless),
        (''classifier'', Sequential2 Parameterless (Linear 1792 1000))]"

definition mobilenet_v3_large :: "(string \<Rightarrow> module) \<Rightarrow> weights option \<Rightarrow> module" where
  "mobilenet_v3_large parts w =
     Module None []
       [(''features'', parts ''mobilenet_v3_large.features''),
        (''avgpool'', Parameterless),
        (''classifier'',
           Sequential4 (Linear 960 1280) Parameterless Parameterless (Linear 1280 1000))]"

definition densenet121 :: "(string \<Rightarrow> module) \<Rightarrow> weights option \<Rightarrow> module" where
  "densenet121 parts w =
     Module None []
       [(''features'', parts ''densenet121.features''),
        (''classifier'', Linear 1024 1000)]"

subsection \<open>\<open>get_model\<close>\<close>

definition replace_heads_head :: "module \<Rightarrow> nat \<Rightarrow> exn + module" where
  \<comment> \<open>\<open>in_features = model.heads.head.in_features; model.heads.head = nn.Linear(in_features, num_classes)\<close>\<close>
  "replace_heads_head model num_classes =
     bind (getattr model ''heads'') (\<lambda>heads.
     bind (getattr heads ''head'') (\<lambda>head.
     bind (in_features head) (\<lambda>n.
     Inr (setattr model ''heads'' (setattr heads ''head'' (Linear n num_classes))))))"

definition replace_fc :: "module \<Rightarrow> nat \<Rightarrow> exn + module" where
  \<comment> \<open>\<open>in_features = model.fc.in_features; model.fc = nn.Linear(in_features, num_classes)\<close>\<close>
  "replace_fc model num_classes =
     bind (getattr model ''fc'') (\<lambda>fc.
     bind (in_features fc) (\<lambda>n.
     Inr (setattr model ''fc'' (Linear n num_classes))))"

definition replace_classifier_item :: "module \<Rightarrow> nat \<Rightarrow> nat \<Rightarrow> exn + module" where
  \<comment> \<open>\<open>in_features = model.classifier[i].in_features; model.classifier[i] = nn.Linear(in_features, num_classes)\<close>\<close>
  "replace_classifier_item model i num_classes =
     bind (getattr model ''classifier'') (\<lambda>classifier.
     bind (getitem classifier i) (\<lambda>layer.
     bind (in_features layer) (\<lambda>n.
     bind (setitem classifier i (Linear n num_classes)) (\<lambda>classifier'.
     Inr (setattr model ''classifier'' classifier')))))"

definition replace_classifier :: "module \<Rightarrow> nat \<Rightarrow> exn + module" where
  \<comment> \<open>\<open>in_features = model.classifier.in_features; model.classifier = nn.Linear(in_features, num_classes)\<close>\<close>
  "replace_classifier model num_classes =
     bind (getattr model ''classifier'') (\<lambda>classifier.
     bind (in_features classifier) (\<lambda>n.
     Inr (setattr model ''classifier'' (Linear n num_classes))))"

text \<open>Lines 55 to 112: the dispatch on the architecture name.\<close>

definition get_model_dispatch :: "(string \<Rightarrow> module) \<Rightarrow> string \<Rightarrow> nat \<Rightarrow> bool \<Rightarrow> exn + module" where
  "get_model_dispatch parts model_name num_classes pretrained =
     (let w = (if pretrained then Some DEFAULT else None) in
      if model_name = ''ViT'' then replace_heads_head (vit_b_16 parts w) num_classes
      else if model_name = ''ViT32'' then replace_heads_head (vit_b_32 parts w) num_classes
      else if model_name = ''ResNet101'' then replace_fc (resnet101 parts w) num_classes
      else if model_name = ''ResNet50'' then replace_fc (resnet50 parts w) num_classes
      else if model_name = ''EfficientNetB0''
        then replace_classifier_item (efficientnet_b0 parts w) 1 num_classes
      else if model_name = ''EfficientNetB4''
        then replace_classifier_item (efficientnet_b4 parts w) 1 num_classes
      else if model_name = ''MobileNetV3''
        then replace_classifier_item (mobilenet_v3_large parts w) 3 num_classes
      else if model_name = ''DenseNet121'' then replace_classifier (densenet121 parts w) num_classes
      else Inl (ValueError (''Unsupported model architecture: '' @ model_name)))"

text \<open>
  Lines 114 to 137: freeze every parameter, then unfreeze those of the head that is
  found first.
\<close>

definition unfreeze :: "module \<Rightarrow> string \<Rightarrow> exn + module" where
  \<comment> \<open>\<open>for param in model.<name>.parameters(): param.requires_grad = True\<close>\<close>
  "unfreeze model name =
     (case map_of (submodules model) name of
        Some c \<Rightarrow> Inr (setattr model name (set_requires_grad True c))
      | None \<Rightarrow> Inl (AttributeError ''parameters''))"

definition get_model_freeze :: "string \<Rightarrow> module \<Rightarrow> exn + module" where
  "get_model_freeze model_name model0 =
     (let model = set_requires_grad False model0 in
      if startswith model_name ''ViT'' then
        (if hasattr model ''heads'' \<and>
            (case getattr model ''heads'' of Inr heads \<Rightarrow> hasattr heads ''head'' | Inl e \<Rightarrow> False)
         then bind (getattr model ''heads'') (\<lambda>heads.
              bind (unfreeze heads ''head'') (\<lambda>heads'.
              Inr (setattr model ''heads'' heads')))
         else if hasattr model ''classifier'' then unfreeze model ''classifier''
         else Inl (AttributeError ''Cannot find the classifier head to unfreeze.''))
      else
        (if hasattr model ''fc'' then unfreeze model ''fc''
         else if hasattr model ''classifier'' then unfreeze model ''classifier''
         else Inl (AttributeError ''Cannot find the classifier head to unfreeze.'')))"

definition get_model :: "(string \<Rightarrow> module) \<Rightarrow> string \<Rightarrow> nat \<Rightarrow> bool \<Rightarrow> bool \<Rightarrow> exn + module" where
  "get_model parts model_name num_classes pretrained freeze =
     bind (get_model_dispatch parts model_name num_classes pretrained) (\<lambda>model.
     if freeze then get_model_freeze model_name model else Inr model)"

text \<open>The eight architecture tokens of the dispatch.\<close>

definition supported_architectures :: "string list" where
  "supported_architectures =
     [''ViT'', ''ViT32'', ''ResNet101'', ''ResNet50'', ''EfficientNetB0'', ''EfficientNetB4'',
      ''MobileNetV3'', ''DenseNet121'']"

text \<open>The path of the linear layer that the dispatch substitutes.\<close>

definition new_layer_path :: "string \<Rightarrow> string list" where
  "new_layer_path model_name =
     (if model_name = ''ViT'' \<or> model_name = ''ViT32'' then [''heads'', ''head'']
      else if model_name = ''ResNet101'' \<or> model_name = ''ResNet50'' then [''fc'']
      else if model_name = ''EfficientNetB0'' \<or> model_name = ''EfficientNetB4''
        then [''classifier'', ''1'']
      else if model_name = ''MobileNetV3'' then [''classifier'', ''3'']
      else [''classifier''])"

definition trainable :: "module \<Rightarrow> string list list" where
  "trainable m = map fst (filter snd (named_parameters m))"

text \<open>Feature extractors of one parameter each, for the concrete examples.\<close>

definition stub_parts :: "string \<Rightarrow> module" where
  "stub_parts name = Module None [(''weight'', True)] []"

subsection \<open>Freezing leaves the head trainable (C1)\<close>

lemma flags_set_requires_grad:
  "pg \<in> set (named_parameters (set_requires_grad g m)) \<Longrightarrow> snd pg = g"
proof (induction m arbitrary: pg)
  case (Module f ps cs)
  then show ?case by (fastforce simp: image_iff)
qed

lemma trainable_frozen [simp]: "filter snd (named_parameters (set_requires_grad False m)) = []"
  by (auto simp: filter_empty_conv dest: flags_set_requires_grad)

lemma filter_snd_prefix [simp]:
  "filter snd (map (\<lambda>pg. (n # fst pg, snd pg)) xs) = map (\<lambda>pg. (n # fst pg, snd pg)) (filter snd xs)"
  by (induction xs) auto

lemmas arch_defs = vit_b_16_def vit_b_32_def resnet_def resnet101_def resnet50_def
  efficientnet_b0_def efficientnet_b4_def mobilenet_v3_large_def densenet121_def
  Linear_def Parameterless_def Sequential2_def Sequential4_def

lemmas builder_defs = get_model_def get_model_dispatch_def get_model_freeze_def
  replace_heads_head_def replace_fc_def replace_classifier_item_def replace_classifier_def
  unfreeze_def hasattr_def getattr_def setattr_def in_features_def getitem_def setitem_def
  startswith_def bind_def

lemma trainable_ViT:
  "\<exists>m. get_model parts ''ViT'' nc pre True = Inr m \<and>
     trainable m = [[''heads'', ''head'', ''weight''], [''heads'', ''head'', ''bias'']]"
  by (simp add: builder_defs arch_defs trainable_def)

lemma trainable_ViT32:
  "\<exists>m. get_model parts ''ViT32'' nc pre True = Inr m \<and>
     trainable m = [[''heads'', ''head'', ''weight''], [''heads'', ''head'', ''bias'']]"
  by (simp add: builder_defs arch_defs trainable_def)

lemma trainable_ResNet101:
  "\<exists>m. get_model parts ''ResNet101'' nc pre True = Inr m \<and>
     trainable m = [[''fc'', ''weight''], [''fc'', ''bias'']]"
  by (simp add: builder_defs arch_defs trainable_def)

lemma trainable_ResNet50:
  "\<exists>m. get_model parts ''ResNet50'' nc pre True = Inr m \<and>
     trainable m = [[''fc'', ''weight''], [''fc'', ''bias'']]"
  by (simp add: builder_defs arch_defs trainable_def)

lemma trainable_EfficientNetB0:
  "\<exists>m. get_model parts ''EfficientNetB0'' nc pre True = Inr m \<and>
     trainable m = [[''classifier'', ''1'', ''weight''], [''classifier'', ''1'', ''bias'']]"
  by (simp add: builder_defs arch_defs trainable_def)

lemma trainable_EfficientNetB4:
  "\<exists>m. get_model parts ''EfficientNetB4'' nc pre True = Inr m \<and>
     trainable m = [[''classifier'', ''1'', ''weight''], [''classifier'', ''1'', ''bias'']]"
  by (simp add: builder_defs arch_defs trainable_def)

lemma trainable_MobileNetV3:
  "\<exists>m. get_model parts ''MobileNetV3'' nc pre True = Inr m \<and>
     trainable m = [[''classifier'', ''0'', ''weight''], [''classifier'', ''0'', ''bias''],
                    [''classifier'', ''3'', ''weight''], [''classifier'', ''3'', ''bias'']]"
  by (simp add: builder_defs arch_defs trainable_def)

lemma trainable_DenseNet121:
  "\<exists>m. get_model parts ''DenseNet121'' nc pre True = Inr m \<and>
     trainable m = [[''classifier'', ''weight''], [''classifier'', ''bias'']]"
  by (simp add: builder_defs arch_defs trainable_def)


lemma supported_iff:
  "model_name \<in> set supported_architectures \<longleftrightarrow>
     model_name = ''ViT'' \<or> model_name = ''ViT32'' \<or> model_name = ''ResNet101''
     \<or> model_name = ''ResNet50'' \<or> model_name = ''EfficientNetB0''
     \<or> model_name = ''EfficientNetB4'' \<or> model_name = ''MobileNetV3''
     \<or> model_name = ''DenseNet121''"
  unfolding supported_architectures_def by (simp only: list.set insert_iff empty_iff simp_thms)

lemma new_layer_path_simps:
  "new_layer_path ''ViT'' = [''heads'', ''head'']"
  "new_layer_path ''ViT32'' = [''heads'', ''head'']"
  "new_layer_path ''ResNet101'' = [''fc'']"
  "new_layer_path ''ResNet50'' = [''fc'']"
  "new_layer_path ''EfficientNetB0'' = [''classifier'', ''1'']"
  "new_layer_path ''EfficientNetB4'' = [''classifier'', ''1'']"
  "new_layer_path ''MobileNetV3'' = [''classifier'', ''3'']"
  "new_layer_path ''DenseNet121'' = [''classifier'']"
  by (simp_all add: new_layer_path_def)

text \<open>
  C1, amended: for every supported architecture token, \<open>get_model\<close> with \<open>freeze=True\<close>
  returns a model in which the weight and bias of the newly substituted linear layer have
  \<open>requires_grad\<close> true. For every token but \<open>MobileNetV3\<close> these two are the only
  trainable parameters: every other parameter has \<open>requires_grad\<close> false. For
  \<open>MobileNetV3\<close> every parameter outside the \<open>classifier\<close> attribute has
  \<open>requires_grad\<close> false.
\<close>

theorem get_model_freeze_trainable:
  assumes "model_name \<in> set supported_architectures"
  shows "\<exists>m. get_model parts model_name num_classes pretrained True = Inr m
    \<and> set [new_layer_path model_name @ [''weight''], new_layer_path model_name @ [''bias'']]
        \<subseteq> set (trainable m)
    \<and> (model_name \<noteq> ''MobileNetV3'' \<longrightarrow>
         trainable m =
           [new_layer_path model_name @ [''weight''], new_layer_path model_name @ [''bias'']])
    \<and> (model_name = ''MobileNetV3'' \<longrightarrow>
         (\<forall>p \<in> set (trainable m). startswith p [''classifier'']))"
proof -
  from assms have "model_name = ''ViT'' \<or> model_name = ''ViT32'' \<or> model_name = ''ResNet101''
     \<or> model_name = ''ResNet50'' \<or> model_name = ''EfficientNetB0''
     \<or> model_name = ''EfficientNetB4'' \<or> model_name = ''MobileNetV3''
     \<or> model_name = ''DenseNet121''"
    by (simp only: supported_iff)
  then show ?thesis
  proof (elim disjE)
    assume n: "model_name = ''ViT''"
    from trainable_ViT [of parts num_classes pretrained] obtain m
      where m: "get_model parts ''ViT'' num_classes pretrained True = Inr m"
        and t: "trainable m =
        [[''heads'', ''head'', ''weight''], [''heads'', ''head'', ''bias'']]"
      by blast
    show ?thesis
      unfolding n new_layer_path_simps
      by (rule exI [of _ m]) (simp add: m t startswith_def)
  next
    assume n: "model_name = ''ViT32''"
    from trainable_ViT32 [of parts num_classes pretrained] obtain m
      where m: "get_model parts ''ViT32'' num_classes pretrained True = Inr m"
        and t: "trainable m =
        [[''heads'', ''head'', ''weight''], [''heads'', ''head'', ''bias'']]"
      by blast
    show ?thesis
      unfolding n new_layer_path_simps
      by (rule exI [of _ m]) (simp add: m t startswith_def)
  next
    assume n: "model_name = ''ResNet101''"
    from trainable_ResNet101 [of parts num_classes pretrained] obtain m
      where m: "get_model parts ''ResNet101'' num_classes pretrained True = Inr m"
        and t: "trainable m =
        [[''fc'', ''weight''], [''fc'', ''bias'']]"
      by blast
    show ?thesis
      unfolding n new_layer_path_simps
      by (rule exI [of _ m]) (simp add: m t startswith_def)
  next
    assume n: "model_name = ''ResNet50''"
    from trainable_ResNet50 [of parts num_classes pretrained] obtain m
      where m: "get_model parts ''ResNet50'' num_classes pretrained True = Inr m"
        and t: "trainable m =
        [[''fc'', ''weight''], [''fc'', ''bias'']]"
      by blast
    show ?thesis
      unfolding n new_layer_path_simps
      by (rule exI [of _ m]) (simp add: m t startswith_def)
  next
    assume n: "model_name = ''EfficientNetB0''"
    from trainable_EfficientNetB0 [of parts num_classes pretrained] obtain m
      where m: "get_model parts ''EfficientNetB0'' num_classes pretrained True = Inr m"
        and t: "trainable m =
        [[''classifier'', ''1'', ''weight''], [''classifier'', ''1'', ''bias'']]"
      by blast
    show ?thesis
      unfolding n new_layer_path_simps
      by (rule exI [of _ m]) (simp add: m t startswith_def)
  next
    assume n: "model_name = ''EfficientNetB4''"
    from trainable_EfficientNetB4 [of parts num_classes pretrained] obtain m
      where m: "get_model parts ''EfficientNetB4'' num_classes pretrained True = Inr m"
        and t: "trainable m =
        [[''classifier'', ''1'', ''weight''], [''classifier'', ''1'', ''bias'']]"
      by blast
    show ?thesis
      unfolding n new_layer_path_simps
      by (rule exI [of _ m]) (simp add: m t startswith_def)
  next
    assume n: "model_name = ''MobileNetV3''"
    from trainable_MobileNetV3 [of parts num_classes pretrained] obtain m
      where m: "get_model parts ''MobileNetV3'' num_classes pretrained True = Inr m"
        and t: "trainable m =
        [[''classifier'', ''0'', ''weight''], [''classifier'', ''0'', ''bias''],
         [''classifier'', ''3'', ''weight''], [''classifier'', ''3'', ''bias'']]"
      by blast
    show ?thesis
      unfolding n new_layer_path_simps
      by (rule exI [of _ m]) (simp add: m t startswith_def)
  next
    assume n: "model_name = ''DenseNet121''"
    from trainable_DenseNet121 [of parts num_classes pretrained] obtain m
      where m: "get_model parts ''DenseNet121'' num_classes pretrained True = Inr m"
        and t: "trainable m =
        [[''classifier'', ''weight''], [''classifier'', ''bias'']]"
      by blast
    show ?thesis
      unfolding n new_layer_path_simps
      by (rule exI [of _ m]) (simp add: m t startswith_def)
  qed
qed

theorem get_model_freeze_trainable_witness:
  "''ResNet50'' \<in> set supported_architectures \<and>
   (\<exists>m. get_model stub_parts ''ResNet50'' 1 True True = Inr m \<and>
      trainable m = [[''fc'', ''weight''], [''fc'', ''bias'']])"
proof -
  have s: "''ResNet50'' \<in> set supported_architectures"
    by (simp add: supported_architectures_def)
  from get_model_freeze_trainable [OF s, of stub_parts 1 True] obtain m
    where "get_model stub_parts ''ResNet50'' 1 True True = Inr m"
      and "''ResNet50'' \<noteq> ''MobileNetV3'' \<longrightarrow> trainable m =
           [new_layer_path ''ResNet50'' @ [''weight''], new_layer_path ''ResNet50'' @ [''bias'']]"
    by blast
  then have "get_model stub_parts ''ResNet50'' 1 True True = Inr m \<and>
      trainable m = [[''fc'', ''weight''], [''fc'', ''bias'']]"
    by (simp add: new_layer_path_simps)
  with s show ?thesis by blast
qed

text \<open>
  C1, as stated, fails on the code for \<open>MobileNetV3\<close>: the unfreeze step takes the whole
  \<open>classifier\<close> attribute, whose first layer is a linear layer of the backbone, so the
  parameters of \<open>classifier.0\<close> are trainable besides those of the new layer
  \<open>classifier.3\<close>.
\<close>

theorem get_model_freeze_counterexample:
  "map_sum id trainable (get_model stub_parts ''MobileNetV3'' 1 True True) =
     Inr [[''classifier'', ''0'', ''weight''], [''classifier'', ''0'', ''bias''],
          [''classifier'', ''3'', ''weight''], [''classifier'', ''3'', ''bias'']]"
  by (simp add: builder_defs arch_defs trainable_def stub_parts_def)

subsection \<open>The dispatch is total on the eight tokens (C3)\<close>

lemma dispatch_ok:
  "\<exists>m. get_model_dispatch parts ''ViT'' nc pre = Inr m \<and> (\<exists>m'. get_model_freeze ''ViT'' m = Inr m')"
  "\<exists>m. get_model_dispatch parts ''ViT32'' nc pre = Inr m \<and> (\<exists>m'. get_model_freeze ''ViT32'' m = Inr m')"
  "\<exists>m. get_model_dispatch parts ''ResNet101'' nc pre = Inr m \<and> (\<exists>m'. get_model_freeze ''ResNet101'' m = Inr m')"
  "\<exists>m. get_model_dispatch parts ''ResNet50'' nc pre = Inr m \<and> (\<exists>m'. get_model_freeze ''ResNet50'' m = Inr m')"
  "\<exists>m. get_model_dispatch parts ''EfficientNetB0'' nc pre = Inr m \<and> (\<exists>m'. get_model_freeze ''EfficientNetB0'' m = Inr m')"
  "\<exists>m. get_model_dispatch parts ''EfficientNetB4'' nc pre = Inr m \<and> (\<exists>m'. get_model_freeze ''EfficientNetB4'' m = Inr m')"
  "\<exists>m. get_model_dispatch parts ''MobileNetV3'' nc pre = Inr m \<and> (\<exists>m'. get_model_freeze ''MobileNetV3'' m = Inr m')"
  "\<exists>m. get_model_dispatch parts ''DenseNet121'' nc pre = Inr m \<and> (\<exists>m'. get_model_freeze ''DenseNet121'' m = Inr m')"
  by (simp_all add: builder_defs arch_defs)

lemma dispatch_supported:
  assumes "model_name \<in> set supported_architectures"
  shows "\<exists>m. get_model_dispatch parts model_name nc pre = Inr m
           \<and> (\<exists>m'. get_model_freeze model_name m = Inr m')"
proof -
  from assms have "model_name = ''ViT'' \<or> model_name = ''ViT32'' \<or> model_name = ''ResNet101''
     \<or> model_name = ''ResNet50'' \<or> model_name = ''EfficientNetB0''
     \<or> model_name = ''EfficientNetB4'' \<or> model_name = ''MobileNetV3''
     \<or> model_name = ''DenseNet121''"
    by (simp only: supported_iff)
  then show ?thesis
    by (elim disjE) (simp_all only: dispatch_ok)
qed

lemma dispatch_unsupported:
  assumes "model_name \<notin> set supported_architectures"
  shows "get_model_dispatch parts model_name nc pre =
           Inl (ValueError (''Unsupported model architecture: '' @ model_name))"
proof -
  from assms have "model_name \<noteq> ''ViT''" "model_name \<noteq> ''ViT32''" "model_name \<noteq> ''ResNet101''"
     "model_name \<noteq> ''ResNet50''" "model_name \<noteq> ''EfficientNetB0''"
     "model_name \<noteq> ''EfficientNetB4''" "model_name \<noteq> ''MobileNetV3''"
     "model_name \<noteq> ''DenseNet121''"
    by (simp_all only: supported_iff de_Morgan_disj simp_thms)
  then show ?thesis
    by (simp only: get_model_dispatch_def Let_def if_False)
qed

text \<open>
  C3: \<open>get_model\<close> returns a model for each of the eight architecture tokens, whatever the
  other arguments, and for any other token it fails with the unsupported-architecture
  \<open>ValueError\<close> whose message ends in the token, returning no model. (Fetching
  pretrained weights, which the dispatch leaves to torchvision, is not modelled.)
\<close>

theorem get_model_total_on_supported:
  "(model_name \<in> set supported_architectures \<longrightarrow>
      (\<exists>m. get_model parts model_name nc pre fr = Inr m))
   \<and> (model_name \<notin> set supported_architectures \<longrightarrow>
      get_model parts model_name nc pre fr =
        Inl (ValueError (''Unsupported model architecture: '' @ model_name)))"
proof (intro conjI impI)
  assume "model_name \<in> set supported_architectures"
  from dispatch_supported [OF this, of parts nc pre] obtain m m'
    where "get_model_dispatch parts model_name nc pre = Inr m"
      "get_model_freeze model_name m = Inr m'"
    by blast
  then show "\<exists>m. get_model parts model_name nc pre fr = Inr m"
    by (cases fr) (simp_all add: get_model_def bind_def)
next
  assume "model_name \<notin> set supported_architectures"
  from dispatch_unsupported [OF this, of parts nc pre]
  show "get_model parts model_name nc pre fr =
        Inl (ValueError (''Unsupported model architecture: '' @ model_name))"
    by (simp add: get_model_def bind_def)
qed

theorem get_model_total_on_supported_witness:
  "(\<exists>m. get_model stub_parts ''ViT'' 1 True True = Inr m)
   \<and> get_model stub_parts ''Bogus'' 1 True True =
       Inl (ValueError ''Unsupported model architecture: Bogus'')"
proof -
  have s: "''ViT'' \<in> set supported_architectures" "''Bogus'' \<notin> set supported_architectures"
    by (simp_all add: supported_architectures_def)
  from get_model_total_on_supported [of "''ViT''" stub_parts 1 True True]
    get_model_total_on_supported [of "''Bogus''" stub_parts 1 True True] s
  show ?thesis by simp
qed

subsection \<open>The head is always found (C10)\<close>

text \<open>
  C10: a model built by the dispatch always has the head that the unfreeze step looks
  for, so for it the step returns and the "Cannot find the classifier head" branch is
  not taken; the branch is taken by a module without sub-modules, which no dispatch
  builds.
\<close>

theorem head_always_found:
  "(get_model_dispatch parts model_name nc pre = Inr m \<longrightarrow>
      (\<exists>m'. get_model_freeze model_name m = Inr m'))
   \<and> get_model_freeze model_name (Module f [] []) =
       Inl (AttributeError ''Cannot find the classifier head to unfreeze.'')"
proof (intro conjI impI)
  assume d: "get_model_dispatch parts model_name nc pre = Inr m"
  have "model_name \<in> set supported_architectures"
  proof (rule ccontr)
    assume "model_name \<notin> set supported_architectures"
    from dispatch_unsupported [OF this, of parts nc pre] d show False by simp
  qed
  from dispatch_supported [OF this, of parts nc pre] d
  show "\<exists>m'. get_model_freeze model_name m = Inr m'"
    by simp
next
  show "get_model_freeze model_name (Module f [] []) =
       Inl (AttributeError ''Cannot find the classifier head to unfreeze.'')"
    by (simp add: get_model_freeze_def hasattr_def getattr_def Let_def)
qed

theorem head_always_found_witness:
  "\<exists>m. get_model_dispatch stub_parts ''ResNet50'' 1 True = Inr m \<and>
     (\<exists>m'. get_model_freeze ''ResNet50'' m = Inr m')"
proof -
  obtain m where m: "get_model_dispatch stub_parts ''ResNet50'' 1 True = Inr m"
    using dispatch_ok(4) [of stub_parts 1 True] by blast
  with head_always_found [of stub_parts "''ResNet50''" 1 True m] show ?thesis
    by blast
qed

section \<open>The score of Cell\_Classification/src/utils.py\<close>

text \<open>
  The label arrays are one-dimensional arrays of integers. \<open>np.sum\<close> of a boolean array
  is a scalar of NumPy's default integer type: a signed integer of 64 bits, or of 32 bits
  where the platform's C long has 32 bits (NumPy 1.x on Windows). The width is a
  parameter of the model. The product of two such scalars wraps around, with a warning
  only.
\<close>

definition wrap :: "nat \<Rightarrow> int \<Rightarrow> int" where
  "wrap bits i = signed_take_bit (bits - 1) i"

definition np_sum :: "nat \<Rightarrow> bool list \<Rightarrow> int" where
  "np_sum bits bs = wrap bits (int (length (filter id bs)))"

definition np_multiply :: "nat \<Rightarrow> int \<Rightarrow> int \<Rightarrow> int" where
  "np_multiply bits x y = wrap bits (x * y)"

text \<open>
  Dividing two integer scalars gives a float, with a warning only when the divisor is 0:
  then the result is not-a-number for 0 / 0 and an infinity otherwise. A float that is
  the quotient of two integers is kept as that division: what it is rounded to is not
  computed.
\<close>

datatype np_float =
    Float0             \<comment> \<open>the literal \<open>0.0\<close>\<close>
  | Quotient int int   \<comment> \<open>the float that dividing these integers gives; the divisor is not 0\<close>
  | PosInf
  | NegInf
  | NaN

definition true_divide :: "int \<Rightarrow> int \<Rightarrow> np_float" where
  "true_divide x y =
     (if y = 0 then (if x = 0 then NaN else if 0 < x then PosInf else NegInf)
      else Quotient x y)"

text \<open>An elementwise operation on two arrays, with NumPy's broadcasting of a length-1 array.\<close>

definition broadcast :: "('a \<Rightarrow> 'b \<Rightarrow> 'c) \<Rightarrow> 'a list \<Rightarrow> 'b list \<Rightarrow> exn + 'c list" where
  "broadcast f xs ys =
     (if length xs = length ys then Inr (map2 f xs ys)
      else if length xs = 1 then Inr (map (f (hd xs)) ys)
      else if length ys = 1 then Inr (map (\<lambda>x. f x (hd ys)) xs)
      else Inl (ValueError ''operands could not be broadcast together''))"

definition calculate_custom_score :: "nat \<Rightarrow> int list \<Rightarrow> int list \<Rightarrow> exn + np_float" where
  "calculate_custom_score bits y_true y_pred =
     bind (broadcast (\<and>) (map (\<lambda>y. y = 0) y_true) (map (\<lambda>y. y = 0) y_pred)) (\<lambda>tn.
     let a0 = np_sum bits tn in
     bind (broadcast (\<and>) (map (\<lambda>y. y = 1) y_true) (map (\<lambda>y. y = 1) y_pred)) (\<lambda>tp.
     let a1 = np_sum bits tp;
         n0 = np_sum bits (map (\<lambda>y. y = 0) y_true);
         n1 = np_sum bits (map (\<lambda>y. y = 1) y_true)
     in if n0 = 0 \<or> n1 = 0 then Inr Float0
        else Inr (true_divide (np_multiply bits a0 a1) (np_multiply bits n0 n1))))"

text \<open>The number of samples of a class.\<close>

definition count_label :: "int \<Rightarrow> int list \<Rightarrow> nat" where
  "count_label c ys = length (filter (\<lambda>y. y = c) ys)"

text \<open>An array of \<open>n\<close> samples of class 0 followed by \<open>n\<close> samples of class 1.\<close>

definition balanced_labels :: "nat \<Rightarrow> int list" where
  "balanced_labels n = replicate n 0 @ replicate n 1"

subsection \<open>The guard against division by zero (C9)\<close>

lemma broadcast_same: "broadcast f xs xs = Inr (map (\<lambda>x. f x x) xs)"
  by (simp add: broadcast_def map2_map_map zip_same_conv_map)

lemma count_balanced:
  "count_label 0 (balanced_labels n) = n" "count_label 1 (balanced_labels n) = n"
  by (simp_all add: count_label_def balanced_labels_def filter_replicate)

lemma np_sum_balanced:
  "np_sum bits (map (\<lambda>y. y = 0) (balanced_labels n)) = wrap bits (int n)"
  "np_sum bits (map (\<lambda>y. y = 1) (balanced_labels n)) = wrap bits (int n)"
  "np_sum bits (map (\<lambda>x. x = 0 \<and> x = 0) (balanced_labels n)) = wrap bits (int n)"
  "np_sum bits (map (\<lambda>x. x = 1 \<and> x = 1) (balanced_labels n)) = wrap bits (int n)"
  by (simp_all add: np_sum_def balanced_labels_def filter_replicate)

lemma score_balanced:
  "calculate_custom_score bits (balanced_labels n) (balanced_labels n) =
     (if wrap bits (int n) = 0 then Inr Float0
      else Inr (true_divide (np_multiply bits (wrap bits (int n)) (wrap bits (int n)))
                  (np_multiply bits (wrap bits (int n)) (wrap bits (int n)))))"
  by (simp add: calculate_custom_score_def broadcast_same bind_def Let_def o_def np_sum_balanced)

text \<open>
  C9 fails on the code: the guard tests the two counts, and the division is by their
  product, which wraps around. With \<open>2^32\<close> samples of each class and 64-bit counts
  (\<open>2^16\<close> of each and 32-bit counts) neither count is 0, so the guard is passed, their
  product is 0 and the division is by zero: the score is not-a-number.
\<close>

theorem score_divides_by_zero:
  "count_label 0 (balanced_labels (2 ^ 32)) = 2 ^ 32
   \<and> count_label 1 (balanced_labels (2 ^ 32)) = 2 ^ 32
   \<and> calculate_custom_score 64 (balanced_labels (2 ^ 32)) (balanced_labels (2 ^ 32)) = Inr NaN
   \<and> count_label 0 (balanced_labels (2 ^ 16)) = 2 ^ 16
   \<and> count_label 1 (balanced_labels (2 ^ 16)) = 2 ^ 16
   \<and> calculate_custom_score 32 (balanced_labels (2 ^ 16)) (balanced_labels (2 ^ 16)) = Inr NaN"
proof -
  have w64: "wrap 64 4294967296 = 4294967296" "wrap 64 18446744073709551616 = 0"
    by (simp_all add: wrap_def signed_take_bit_eq_take_bit_shift take_bit_eq_mod)
  have w32: "wrap 32 65536 = 65536" "wrap 32 4294967296 = 0"
    by (simp_all add: wrap_def signed_take_bit_eq_take_bit_shift take_bit_eq_mod)
  show ?thesis
    by (simp add: count_balanced score_balanced w64 w32 np_multiply_def true_divide_def)
qed

section \<open>Saving an image: \<open>save_image_as_tif\<close> of Cell\_Classification/src/utils.py\<close>

text \<open>
  A NumPy array of integers: its shape and its elements in row-major order. Arrays of
  floating-point numbers are not modelled.
\<close>

datatype ndarray = NdArray (arr_shape: "nat list") (arr_data: "int list")

datatype py_obj =
    PyNone
  | PyInt int
  | PyStr string
  | PyArray ndarray
  | PyDict "(string \<times> py_obj) list"

text \<open>\<open>a.astype(np.uint16)\<close> on integers: the low 16 bits of every element.\<close>

definition astype_uint16 :: "ndarray \<Rightarrow> ndarray" where
  "astype_uint16 a = NdArray (arr_shape a) (map (\<lambda>v. v mod 65536) (arr_data a))"

text \<open>A PIL image of mode \<open>I;16\<close>: its size (width, height) and its 16-bit pixels.\<close>

datatype pil_image = PilImage (img_mode: string) (img_size: "nat \<times> nat") (img_pixels: "int list")

text \<open>
  The imaging libraries, as far as the repository does not decide what they do: the
  colour conversion of OpenCV, what \<open>Image.fromarray\<close> makes of an array that is
  not two-dimensional, and the TIFF codec of PIL: the bytes it writes for an image, and
  the image it reads from the bytes of a file.
\<close>

type_synonym bytes = "nat list"

record imaging =
  cvtColor_BGR2GRAY :: "ndarray \<Rightarrow> exn + ndarray"
  fromarray_other :: "ndarray \<Rightarrow> exn + pil_image"
  tiff_encode :: "pil_image \<Rightarrow> bytes"
  tiff_decode :: "bytes \<Rightarrow> exn + pil_image"

definition fromarray_I16 :: "imaging \<Rightarrow> ndarray \<Rightarrow> exn + pil_image" where
  \<comment> \<open>\<open>Image.fromarray(a, mode='I;16')\<close> for an array \<open>a\<close> of unsigned 16-bit integers\<close>
  "fromarray_I16 libs a =
     (case arr_shape a of
        [h, w] \<Rightarrow> Inr (PilImage ''I;16'' (w, h) (arr_data a))
      | _ \<Rightarrow> fromarray_other libs a)"

text \<open>
  The world of the service: the files and their bytes, the paths that can be written,
  the clock (\<open>int(time.time())\<close>) and the log.
\<close>

record world =
  files :: "string \<Rightarrow> bytes option"
  writable :: "string \<Rightarrow> bool"
  clock :: int
  log_lines :: "string list"

text \<open>
  \<open>pil_image.save(output_path, format='TIFF')\<close>: the file is opened for writing, and
  the encoder refuses an image without rows or columns.
\<close>

definition pil_save :: "imaging \<Rightarrow> pil_image \<Rightarrow> string \<Rightarrow> world \<Rightarrow> exn + world" where
  "pil_save libs img path w =
     (if \<not> writable w path then Inl (OSError path)
      else if fst (img_size img) = 0 \<or> snd (img_size img) = 0
        then Inl (SystemError ''tile cannot extend outside image'')
      else Inr (w\<lparr>files := (files w)(path := Some (tiff_encode libs img))\<rparr>))"

definition save_image_as_tif :: "imaging \<Rightarrow> py_obj \<Rightarrow> string \<Rightarrow> world \<Rightarrow> exn + world" where
  "save_image_as_tif libs img output_path w =
     (case img of
        PyArray a \<Rightarrow>
          bind (if length (arr_shape a) = 3 then cvtColor_BGR2GRAY libs a else Inr a) (\<lambda>image_gray.
          bind (fromarray_I16 libs (astype_uint16 image_gray)) (\<lambda>pil_image.
          pil_save libs pil_image output_path w))
      | _ \<Rightarrow> Inl (ValueError ''Input image is not a valid NumPy array.''))"

text \<open>
  Reading an image file back as an array of height x width (\<open>Image.open\<close>, then
  \<open>np.array\<close>), as the round trip of the specification does.
\<close>

definition read_tif :: "imaging \<Rightarrow> string \<Rightarrow> world \<Rightarrow> exn + ndarray" where
  "read_tif libs path w =
     (case files w path of
        None \<Rightarrow> Inl (OSError path)
      | Some bs \<Rightarrow>
          bind (tiff_decode libs bs) (\<lambda>img.
          Inr (NdArray [snd (img_size img), fst (img_size img)] (img_pixels img))))"

definition in_uint16_range :: "ndarray \<Rightarrow> bool" where
  "in_uint16_range a = list_all (\<lambda>v. 0 \<le> v \<and> v < 65536) (arr_data a)"

text \<open>
  For the concrete examples: libraries that refuse every colour conversion and every
  array that is not two-dimensional, with a codec that writes the width, the height and
  the pixels of a 16-bit image as two bytes each; and a world where every path can be
  written.
\<close>

definition raw_encode :: "pil_image \<Rightarrow> bytes" where
  "raw_encode img =
     concat (map (\<lambda>n. [n mod 256, n div 256 mod 256])
       (fst (img_size img) # snd (img_size img) # map nat (img_pixels img)))"

fun raw_words :: "bytes \<Rightarrow> nat list" where
  "raw_words (lo # hi # bs) = (lo + 256 * hi) # raw_words bs"
| "raw_words bs = []"

definition raw_decode :: "bytes \<Rightarrow> exn + pil_image" where
  "raw_decode bs =
     (case raw_words bs of
        w # h # px \<Rightarrow> Inr (PilImage ''I;16'' (w, h) (map int px))
      | _ \<Rightarrow> Inl (OSError ''cannot identify image file''))"

definition plain_imaging :: imaging where
  "plain_imaging =
     \<lparr>cvtColor_BGR2GRAY = (\<lambda>a. Inl (Exception ''cvtColor'')),
      fromarray_other = (\<lambda>a. Inl (Exception ''fromarray'')),
      tiff_encode = raw_encode,
      tiff_decode = raw_decode\<rparr>"

definition empty_world :: world where
  "empty_world = \<lparr>files = (\<lambda>p. None), writable = (\<lambda>p. True), clock = 1700000000, log_lines = []\<rparr>"

section \<open>The prediction endpoint of Cell\_Classification/api.py\<close>




text \<open>
  What the endpoint calls and the repository's sources do not hold: \<open>load_sample\<close>,
  \<open>predict\<close>, and the validation of the response model's integer field.
\<close>

record services =
  load_sample :: "string \<Rightarrow> exn + py_obj"
  predict :: "ndarray \<Rightarrow> exn + py_obj"
  validate_int :: "py_obj \<Rightarrow> exn + int"
  libs :: imaging














subsection \<open>Every failure is a 400 (C5)\<close>




subsection \<open>Saving and reading back (C7)\<close>

lemma astype_uint16_id: "in_uint16_range g \<Longrightarrow> astype_uint16 g = g"
  by (cases g) (auto simp: in_uint16_range_def astype_uint16_def list_all_iff intro: map_idI)

lemma astype_uint16_range: "in_uint16_range (astype_uint16 g)"
  by (simp add: in_uint16_range_def astype_uint16_def list_all_iff)

lemma astype_uint16_fixed: "astype_uint16 g = g \<longleftrightarrow> in_uint16_range g"
  using astype_uint16_id [of g] astype_uint16_range [of g] by auto

text \<open>
  C7, as stated, fails on the code: \<open>astype(np.uint16)\<close> keeps the low 16 bits, so the
  1x1 image of the integer 70000 is read back as 4464; and an array without rows or
  columns is not saved at all: the encoder raises.
\<close>

theorem tif_roundtrip_counterexample:
  "map_sum id (read_tif plain_imaging ''x.tif'')
     (save_image_as_tif plain_imaging (PyArray (NdArray [1, 1] [70000])) ''x.tif'' empty_world) =
   Inr (Inr (NdArray [1, 1] [4464]))
   \<and> save_image_as_tif plain_imaging (PyArray (NdArray [0, 0] [])) ''x.tif'' empty_world =
   Inl (SystemError ''tile cannot extend outside image'')"
  by (simp add: save_image_as_tif_def bind_def fromarray_I16_def astype_uint16_def pil_save_def
      empty_world_def read_tif_def plain_imaging_def raw_encode_def raw_decode_def)

text \<open>
  C7, amended: saving a two-dimensional array of integers with at least one row and one
  column, or a three-dimensional one whose grayscale conversion is such an array, to a
  writable path succeeds and writes the TIFF encoding of a single-channel 16-bit image
  that holds the low 16 bits of the (converted) values. When the codec reads back the
  image it wrote, re-reading the file yields an array of these 16-bit values, and it is
  numerically equal to the (converted) input exactly when all values of that input lie
  in 0..65535.
\<close>

theorem tif_roundtrip:
  assumes wr: "writable w path"
    and g: "if length (arr_shape a) = 3 then cvtColor_BGR2GRAY lb a = Inr g else g = a"
    and sh: "arr_shape g = [h, wd]" and ne: "0 < h" "0 < wd"
  shows "\<exists>w'. save_image_as_tif lb (PyArray a) path w = Inr w'
           \<and> files w' path =
               Some (tiff_encode lb (PilImage ''I;16'' (wd, h) (arr_data (astype_uint16 g))))
           \<and> in_uint16_range (astype_uint16 g)
           \<and> (tiff_decode lb (tiff_encode lb (PilImage ''I;16'' (wd, h) (arr_data (astype_uint16 g))))
                = Inr (PilImage ''I;16'' (wd, h) (arr_data (astype_uint16 g))) \<longrightarrow>
              read_tif lb path w' = Inr (astype_uint16 g)
              \<and> (read_tif lb path w' = Inr g \<longleftrightarrow> in_uint16_range g))"
proof -
  let ?img = "PilImage ''I;16'' (wd, h) (arr_data (astype_uint16 g))"
  let ?w' = "w\<lparr>files := (files w)(path := Some (tiff_encode lb ?img))\<rparr>"
  have g': "(if length (arr_shape a) = 3 then cvtColor_BGR2GRAY lb a else Inr a) = Inr g"
    using g by (simp split: if_splits)
  have p: "fromarray_I16 lb (astype_uint16 g) = Inr ?img"
    using sh by (simp add: fromarray_I16_def astype_uint16_def)
  have s: "save_image_as_tif lb (PyArray a) path w = Inr ?w'"
    using wr ne by (simp add: save_image_as_tif_def g' p bind_def pil_save_def)
  have f: "files ?w' path = Some (tiff_encode lb ?img)"
    by simp
  have r: "read_tif lb path ?w' = Inr (astype_uint16 g)"
    if "tiff_decode lb (tiff_encode lb ?img) = Inr ?img"
    using that sh by (simp add: read_tif_def bind_def astype_uint16_def)
  have "read_tif lb path ?w' = Inr g \<longleftrightarrow> in_uint16_range g"
    if "tiff_decode lb (tiff_encode lb ?img) = Inr ?img"
    using r [OF that] astype_uint16_fixed [of g] by auto
  with s f r astype_uint16_range [of g] show ?thesis by blast
qed

theorem tif_roundtrip_witness:
  "\<exists>w'. save_image_as_tif plain_imaging (PyArray (NdArray [2, 2] [1, 2, 3, 65535])) ''x.tif''
           empty_world = Inr w'
       \<and> read_tif plain_imaging ''x.tif'' w' = Inr (NdArray [2, 2] [1, 2, 3, 65535])"
proof -
  have wr: "writable empty_world ''x.tif''" by (simp add: empty_world_def)
  have codec: "tiff_decode plain_imaging (tiff_encode plain_imaging
      (PilImage ''I;16'' (2, 2) (arr_data (astype_uint16 (NdArray [2, 2] [1, 2, 3, 65535]))))) =
      Inr (PilImage ''I;16'' (2, 2) (arr_data (astype_uint16 (NdArray [2, 2] [1, 2, 3, 65535]))))"
    by (simp add: plain_imaging_def raw_encode_def raw_decode_def astype_uint16_def)
  from tif_roundtrip [OF wr, of "NdArray [2, 2] [1, 2, 3, 65535]" plain_imaging
      "NdArray [2, 2] [1, 2, 3, 65535]" 2 2] codec
  show ?thesis by (auto simp: in_uint16_range_def)
qed

end
